theory Spec2Isabelle
  imports Complex_Main "HOL-Library.AList"
begin

section \<open>Python values\<close>

text \<open>
  The converter is dynamically typed: source materials and override records are the
  result of \<^verbatim>\<open>json.load\<close>, and the fields of the material classes hold whatever the
  overrides put there. Values are therefore one datatype. A \<^verbatim>\<open>dict\<close> is an association
  list in insertion order (its keys are strings, as in JSON). An \<^verbatim>\<open>int\<close> and a finite \<^verbatim>\<open>float\<close>
  are both \<open>PNum\<close> of the real number they denote, so that \<^verbatim>\<open>1\<close> and \<^verbatim>\<open>1.0\<close> are one value, as
  they are for \<^verbatim>\<open>==\<close> and as keys of a \<^verbatim>\<open>dict\<close>; infinities and NaN are not values of the
  model. A \<^verbatim>\<open>pathlib.Path\<close> is \<open>PPath p\<close>, with \<open>p\<close> the text that \<^verbatim>\<open>str\<close> gives for the path:
  on a POSIX system two paths are equal exactly when their texts are.
\<close>

datatype pyval =
    PNone
  | PBool bool
  | PNum real
  | PStr string
  | PPath string
  | PList "pyval list"
  | PTuple "pyval list"
  | PDict "(string \<times> pyval) list"

type_synonym dict = "(string \<times> pyval) list"

text \<open>The exceptions of the repository, one constructor for each \<^verbatim>\<open>raise\<close> and \<^verbatim>\<open>assert\<close>,
  and the built-in ones that the modelled statements can throw (\<open>ValueError_float\<close> is the
  \<^verbatim>\<open>ValueError\<close> of \<^verbatim>\<open>float()\<close> on a string that is no number).\<close>

datatype error =
    UnknownOperator pyval
  | CannotModulateNone
  | OriginalNotNumeric pyval
  | ValueNotNumeric pyval
  | FloatByTuple
  | LengthMismatch
  | UnknownOverrides pyval
  | CannotConstructEmissive
  | OutnameExists
  | OutnameInverseExists
  | CannotFold
  | AssertionError
  | KeyError string
  | KeyError_texture_key
  | IndexError
  | TypeError
  | AttributeError string
  | OverflowError
  | ValueError_float

fun py_truthy :: "pyval \<Rightarrow> bool" where
  "py_truthy PNone = False"
| "py_truthy (PBool b) = b"
| "py_truthy (PNum r) = (r \<noteq> 0)"
| "py_truthy (PStr s) = (s \<noteq> [])"
| "py_truthy (PPath p) = True"
| "py_truthy (PList xs) = (xs \<noteq> [])"
| "py_truthy (PTuple xs) = (xs \<noteq> [])"
| "py_truthy (PDict d) = (d \<noteq> [])"

text \<open>\<^verbatim>\<open>a or b\<close>\<close>

definition py_or :: "pyval \<Rightarrow> pyval \<Rightarrow> pyval" where
  "py_or a b = (if py_truthy a then a else b)"

text \<open>Sequencing of statements that can raise: the first exception ends the computation.\<close>

fun ebind :: "error + 'a \<Rightarrow> ('a \<Rightarrow> error + 'b) \<Rightarrow> error + 'b" where
  "ebind (Inl e) f = Inl e"
| "ebind (Inr x) f = f x"

text \<open>A comprehension whose element expression can raise: the elements are computed from
  left to right, and the first exception ends the computation.\<close>

fun emap :: "('a \<Rightarrow> error + 'b) \<Rightarrow> 'a list \<Rightarrow> error + 'b list" where
  "emap f [] = Inr []"
| "emap f (x # xs) = ebind (f x) (\<lambda>y. ebind (emap f xs) (\<lambda>ys. Inr (y # ys)))"

text \<open>
  The arithmetic of Python and \<^verbatim>\<open>float()\<close> are not code of this repository. On two \<^verbatim>\<open>int\<close>s
  \<^verbatim>\<open>*\<close> and \<^verbatim>\<open>+\<close> are exact; with a \<^verbatim>\<open>float\<close> operand the result is rounded to a double, an
  \<^verbatim>\<open>int\<close> too large for a double raises \<^verbatim>\<open>OverflowError\<close>, and a large product is an infinity.
  \<^verbatim>\<open>float(x)\<close> rounds an \<^verbatim>\<open>int\<close>, parses a string, and raises on what it cannot convert. The
  three are parameters of the model, the record \<open>python\<close>: each gives the value of the
  expression or the exception it raises. Where Python gives an infinity or NaN, which are
  no values of the model, the model has no result: what is proved of an operation is
  proved of those whose result is a finite number or an exception.
\<close>

record python =
  op_mult :: "pyval \<Rightarrow> pyval \<Rightarrow> error + pyval"
  op_add :: "pyval \<Rightarrow> pyval \<Rightarrow> error + pyval"
  float_of :: "pyval \<Rightarrow> error + pyval"

fun is_dict :: "pyval \<Rightarrow> bool" where
  "is_dict (PDict d) = True"
| "is_dict _ = False"

text \<open>\<^verbatim>\<open>d.pop(k)\<close> after \<^verbatim>\<open>k in d\<close>, and \<^verbatim>\<open>d.pop(k, default)\<close>: the value and the dict left.\<close>

definition dict_pop :: "dict \<Rightarrow> string \<Rightarrow> (pyval \<times> dict) option" where
  "dict_pop d k = (case map_of d k of None \<Rightarrow> None | Some v \<Rightarrow> Some (v, AList.delete k d))"

definition dict_pop_default :: "dict \<Rightarrow> string \<Rightarrow> pyval \<Rightarrow> pyval \<times> dict" where
  "dict_pop_default d k dflt = (case map_of d k of None \<Rightarrow> (dflt, d) | Some v \<Rightarrow> (v, AList.delete k d))"

text \<open>\<^verbatim>\<open>d.get(k, default)\<close>\<close>

definition dict_get :: "dict \<Rightarrow> string \<Rightarrow> pyval \<Rightarrow> pyval" where
  "dict_get d k dflt = (case map_of d k of None \<Rightarrow> dflt | Some v \<Rightarrow> v)"

section \<open>utils.py: the modulation engine\<close>

text \<open>\<^verbatim>\<open>isinstance(obj, (int, float))\<close>: a \<^verbatim>\<open>bool\<close> is an \<^verbatim>\<open>int\<close> in Python.\<close>

fun is_numeric :: "pyval \<Rightarrow> bool" where
  "is_numeric (PNum r) = True"
| "is_numeric (PBool b) = True"
| "is_numeric _ = False"

fun is_numeric_sequence :: "pyval \<Rightarrow> bool" where
  "is_numeric_sequence (PList xs) = list_all is_numeric xs"
| "is_numeric_sequence (PTuple xs) = list_all is_numeric xs"
| "is_numeric_sequence _ = False"

text \<open>The elements of a sequence.\<close>

fun items_of :: "pyval \<Rightarrow> pyval list" where
  "items_of (PList xs) = xs"
| "items_of (PTuple xs) = xs"
| "items_of _ = []"

text \<open>The \<^verbatim>\<open>match op\<close> blocks of \<^verbatim>\<open>_modulate\<close>, for one pair of numbers: \<^verbatim>\<open>a * b\<close> or \<^verbatim>\<open>a + b\<close>.
  They are reached only with \<^verbatim>\<open>op\<close> one of \<^verbatim>\<open>'mult'\<close> and \<^verbatim>\<open>'add'\<close>.\<close>

definition match_op :: "python \<Rightarrow> pyval \<Rightarrow> pyval \<Rightarrow> pyval \<Rightarrow> error + pyval" where
  "match_op py op a b = (if op = PStr ''mult'' then op_mult py a b else op_add py a b)"

text \<open>\<^verbatim>\<open>_modulate\<close> of utils.py. The two \<^verbatim>\<open>pop\<close>s take \<^verbatim>\<open>'op'\<close> and \<^verbatim>\<open>'value'\<close> out of the
  directive; what else the directive holds is not read.\<close>

definition modulate_impl :: "python \<Rightarrow> pyval \<Rightarrow> pyval \<Rightarrow> error + pyval" where
  "modulate_impl py original modulator =
     (case modulator of
        PDict m \<Rightarrow>
          (case dict_pop m ''op'' of
             None \<Rightarrow> Inl (KeyError ''op'')
           | Some (op, m1) \<Rightarrow>
          (case dict_pop m1 ''value'' of
             None \<Rightarrow> Inl (KeyError ''value'')
           | Some (val, m2) \<Rightarrow>
               if op \<noteq> PStr ''mult'' \<and> op \<noteq> PStr ''add'' then Inl (UnknownOperator op)
               else if original = PNone then Inl CannotModulateNone
               else if \<not> (is_numeric original \<or> is_numeric_sequence original)
                 then Inl (OriginalNotNumeric original)
               else if \<not> (is_numeric val \<or> is_numeric_sequence val)
                 then Inl (ValueNotNumeric val)
               else if is_numeric original \<and> is_numeric val
                 then match_op py op original val
               else if is_numeric original \<and> is_numeric_sequence val
                 then Inl FloatByTuple
               else if is_numeric_sequence original \<and> is_numeric val
                 then ebind (emap (\<lambda>x. match_op py op x val) (items_of original))
                        (\<lambda>out. Inr (PTuple out))
               else if is_numeric_sequence original \<and> is_numeric_sequence val
                 then (if length (items_of original) \<noteq> length (items_of val)
                       then Inl LengthMismatch
                       else ebind (emap (\<lambda>(x, v). match_op py op x v)
                                     (zip (items_of original) (items_of val)))
                              (\<lambda>out. Inr (PTuple out)))
               else Inl AssertionError))
      | _ \<Rightarrow> Inr modulator)"

text \<open>\<^verbatim>\<open>modulate\<close> of utils.py: the result of \<^verbatim>\<open>_modulate\<close>, then the two shape assertions.\<close>

definition modulate :: "python \<Rightarrow> pyval \<Rightarrow> pyval \<Rightarrow> error + pyval" where
  "modulate py original modulator =
     (case modulate_impl py original modulator of
        Inl e \<Rightarrow> Inl e
      | Inr out \<Rightarrow>
          if is_numeric original \<noteq> is_numeric out then Inl AssertionError
          else if is_numeric_sequence original \<noteq> is_numeric_sequence out then Inl AssertionError
          else Inr out)"

section \<open>utils.py: the override merge\<close>

text \<open>
  \<^verbatim>\<open>recursive_overwrite(A, B)\<close> changes \<open>A\<close> in place and returns it; here it returns the
  new \<open>A\<close>. \<^verbatim>\<open>copy.deepcopy(v)\<close> is the value \<open>v\<close>: values have no identity in this model.
  \<^verbatim>\<open>A[k] = x\<close> is \<open>AList.update\<close>, which replaces the entry of \<open>k\<close> in place or appends a
  new one, as a Python \<^verbatim>\<open>dict\<close> does.
\<close>

fun recursive_overwrite :: "dict \<Rightarrow> dict \<Rightarrow> dict" where
  "recursive_overwrite A [] = A"
| "recursive_overwrite A ((k, v) # B) =
     recursive_overwrite
       (case (map_of A k, v) of
          (Some (PDict a), PDict b) \<Rightarrow> AList.update k (PDict (recursive_overwrite a b)) A
        | _ \<Rightarrow> AList.update k v A)
       B"


section \<open>gltf\_material\_utils.py: the source material\<close>

text \<open>
  The classes are records; an \<^verbatim>\<open>Optional\<close> sub-object is an \<open>option\<close>, and the fields read
  straight from the JSON object are values. Field names carry the prefix \<open>g_\<close>, since the
  converted material below has fields of the same names. The constructors take the JSON
  object; one that is not a \<^verbatim>\<open>dict\<close> cannot be subscripted by a string
  (\<^verbatim>\<open>TypeError\<close>) and has no \<^verbatim>\<open>get\<close> (\<^verbatim>\<open>AttributeError\<close>).
\<close>

text \<open>\<^verbatim>\<open>init(cls, obj, key, default)\<close> of utils.py\<close>

definition init :: "(pyval \<Rightarrow> error + 'a) \<Rightarrow> dict \<Rightarrow> string \<Rightarrow> 'a \<Rightarrow> error + 'a" where
  "init cls obj key dflt = (case map_of obj key of Some v \<Rightarrow> cls v | None \<Rightarrow> Inr dflt)"

text \<open>\<^verbatim>\<open>tuple(x)\<close>; \<^verbatim>\<open>float(x)\<close> is \<open>float_of py x\<close>.\<close>

fun py_tuple :: "pyval \<Rightarrow> error + pyval" where
  "py_tuple (PList xs) = Inr (PTuple xs)"
| "py_tuple (PTuple xs) = Inr (PTuple xs)"
| "py_tuple (PStr s) = Inr (PTuple (map (\<lambda>c. PStr [c]) s))"
| "py_tuple (PDict d) = Inr (PTuple (map (\<lambda>kv. PStr (fst kv)) d))"
| "py_tuple _ = Inl TypeError"

record GLTF_TextureInfo =
  g_index :: pyval

record GLTF_NormalTexture = GLTF_TextureInfo +
  g_scale :: pyval

record GLTF_OcclusionTexture = GLTF_TextureInfo +
  g_strength :: pyval

record GLTF_PBRMetallicRoughness =
  g_base_color_factor :: pyval
  g_base_color_texture :: "GLTF_TextureInfo option"
  g_metallic_factor :: pyval
  g_roughness_factor :: pyval
  g_metallic_roughness_texture :: "GLTF_TextureInfo option"

record GLTF_Material =
  g_name :: pyval
  g_pbr_metallic_roughness :: "GLTF_PBRMetallicRoughness option"
  g_normal_texture :: "GLTF_NormalTexture option"
  g_occlusion_texture :: "GLTF_OcclusionTexture option"
  g_emissive_texture :: "GLTF_TextureInfo option"
  g_emissive_factor :: pyval
  g_alpha_mode :: pyval
  g_alpha_cutoff :: pyval
  g_double_sided :: pyval

definition GLTF_TextureInfo_init :: "pyval \<Rightarrow> error + GLTF_TextureInfo" where
  "GLTF_TextureInfo_init obj =
     (case obj of
        PDict d \<Rightarrow>
          (case map_of d ''index'' of
             None \<Rightarrow> Inl (KeyError ''index'')
           | Some i \<Rightarrow> Inr \<lparr>g_index = i\<rparr>)
      | _ \<Rightarrow> Inl TypeError)"

definition GLTF_NormalTexture_init :: "pyval \<Rightarrow> error + GLTF_NormalTexture" where
  "GLTF_NormalTexture_init obj =
     (case obj of
        PDict d \<Rightarrow>
          (case map_of d ''index'' of
             None \<Rightarrow> Inl (KeyError ''index'')
           | Some i \<Rightarrow> Inr \<lparr>g_index = i, g_scale = dict_get d ''scale'' (PNum 1)\<rparr>)
      | _ \<Rightarrow> Inl TypeError)"

definition GLTF_OcclusionTexture_init :: "pyval \<Rightarrow> error + GLTF_OcclusionTexture" where
  "GLTF_OcclusionTexture_init obj =
     (case obj of
        PDict d \<Rightarrow>
          (case map_of d ''index'' of
             None \<Rightarrow> Inl (KeyError ''index'')
           | Some i \<Rightarrow> Inr \<lparr>g_index = i, g_strength = dict_get d ''strength'' (PNum 1)\<rparr>)
      | _ \<Rightarrow> Inl TypeError)"

text \<open>A class given to \<^verbatim>\<open>init\<close> with the default \<^verbatim>\<open>None\<close>.\<close>

definition optional :: "(pyval \<Rightarrow> error + 'a) \<Rightarrow> pyval \<Rightarrow> error + 'a option" where
  "optional cls v = ebind (cls v) (\<lambda>x. Inr (Some x))"

definition GLTF_PBRMetallicRoughness_init :: "python \<Rightarrow> pyval \<Rightarrow> error + GLTF_PBRMetallicRoughness" where
  "GLTF_PBRMetallicRoughness_init py obj =
     (case obj of
        PDict d \<Rightarrow>
          ebind (py_tuple (dict_get d ''baseColorFactor'' (PList [PNum 1, PNum 1, PNum 1, PNum 1])))
            (\<lambda>base_color_factor.
          ebind (init (optional GLTF_TextureInfo_init) d ''baseColorTexture'' None)
            (\<lambda>base_color_texture.
          ebind (init (float_of py) d ''metallicFactor'' PNone)
            (\<lambda>metallic_factor.
          ebind (init (float_of py) d ''roughnessFactor'' PNone)
            (\<lambda>roughness_factor.
          ebind (init (optional GLTF_TextureInfo_init) d ''metallicRoughnessTexture'' None)
            (\<lambda>metallic_roughness_texture.
          Inr \<lparr>g_base_color_factor = base_color_factor,
               g_base_color_texture = base_color_texture,
               g_metallic_factor = metallic_factor,
               g_roughness_factor = roughness_factor,
               g_metallic_roughness_texture = metallic_roughness_texture\<rparr>)))))
      | _ \<Rightarrow> Inl (AttributeError ''get''))"

text \<open>\<^verbatim>\<open>GLTF_Material.__init__\<close>. The key read for the cutoff is \<^verbatim>\<open>'alphaCuttoff'\<close>, as the
  source spells it.\<close>

definition GLTF_Material_init :: "python \<Rightarrow> dict \<Rightarrow> error + GLTF_Material" where
  "GLTF_Material_init py obj =
     (case map_of obj ''name'' of
        None \<Rightarrow> Inl (KeyError ''name'')
      | Some name \<Rightarrow>
          ebind (init (optional (GLTF_PBRMetallicRoughness_init py)) obj ''pbrMetallicRoughness'' None)
            (\<lambda>pbr_metallic_roughness.
          ebind (init (optional GLTF_NormalTexture_init) obj ''normalTexture'' None)
            (\<lambda>normal_texture.
          ebind (init (optional GLTF_OcclusionTexture_init) obj ''occlusionTexture'' None)
            (\<lambda>occlusion_texture.
          ebind (init (optional GLTF_TextureInfo_init) obj ''emissiveTexture'' None)
            (\<lambda>emissive_texture.
          ebind (init py_tuple obj ''emissiveFactor'' PNone)
            (\<lambda>emissive_factor.
          let alpha_mode = dict_get obj ''alphaMode'' (PStr ''OPAQUE'') in
          ebind (init (float_of py) obj ''alphaCuttoff''
                   (if alpha_mode = PStr ''MASK'' then PNum (1 / 2) else PNone))
            (\<lambda>alpha_cutoff.
          Inr \<lparr>g_name = name,
               g_pbr_metallic_roughness = pbr_metallic_roughness,
               g_normal_texture = normal_texture,
               g_occlusion_texture = occlusion_texture,
               g_emissive_texture = emissive_texture,
               g_emissive_factor = emissive_factor,
               g_alpha_mode = alpha_mode,
               g_alpha_cutoff = alpha_cutoff,
               g_double_sided = dict_get obj ''doubleSided'' (PBool False)\<rparr>)))))))"

section \<open>gltf\_src.py: the source document\<close>

text \<open>
  Of a \<^verbatim>\<open>GLTFSrc\<close> the converter uses \<^verbatim>\<open>file\<close> (the field \<open>gltf_file\<close>) and \<^verbatim>\<open>texture_idx2uri\<close>. The two table
  lookups and the \<^verbatim>\<open>os.path.join\<close> of that method are the field \<open>texture_path\<close>: the path
  text for a texture index, or the exception of a lookup that fails.
\<close>

record GLTFSrc =
  gltf_file :: pyval
  texture_path :: "pyval \<Rightarrow> error + string"

definition texture_idx2uri :: "GLTFSrc \<Rightarrow> pyval \<Rightarrow> error + pyval" where
  "texture_idx2uri src index =
     (if index = PNone then Inr PNone
      else ebind (texture_path src index) (\<lambda>p. Inr (PPath p)))"


section \<open>dxspec\_material\_utils.py: texture slots\<close>

text \<open>
  A texture key: the channel sources \<open>(uri, swizzle)\<close> in order, the compression format
  and the resolution.
\<close>

type_synonym DXSpec_TextureKey = "(pyval \<times> string) list \<times> string \<times> pyval"

record DXSpec_TextureInfo =
  uri :: pyval
  swizzle :: string

record DXSpec_NormalTexture = DXSpec_TextureInfo +
  scale :: pyval

text \<open>The classes \<^verbatim>\<open>DXSpec_OcclusionTexture\<close>, \<^verbatim>\<open>DXSpec_RoughnessTexture\<close>,
  \<^verbatim>\<open>DXSpec_MetalnessTexture\<close> and \<^verbatim>\<open>DXSpec_DiffuseTexture\<close> all add the one field
  \<^verbatim>\<open>strength\<close>; they share a record.\<close>

record DXSpec_StrengthTexture = DXSpec_TextureInfo +
  strength :: pyval

type_synonym DXSpec_OcclusionTexture = DXSpec_StrengthTexture
type_synonym DXSpec_RoughnessTexture = DXSpec_StrengthTexture
type_synonym DXSpec_MetalnessTexture = DXSpec_StrengthTexture
type_synonym DXSpec_DiffuseTexture = DXSpec_StrengthTexture

text \<open>
  The annotation of an override is \<^verbatim>\<open>dict | None\<close>. With a true value that is no \<^verbatim>\<open>dict\<close> the
  \<^verbatim>\<open>if override:\<close> block of a slot constructor still runs: \<^verbatim>\<open>k in override\<close> is a substring test
  on a string, a membership test on a list or a tuple, and raises \<^verbatim>\<open>TypeError\<close> on a number or
  a path; where it is true, \<^verbatim>\<open>override.pop(k)\<close> raises (a string and a tuple have no \<^verbatim>\<open>pop\<close>,
  the \<^verbatim>\<open>pop\<close> of a list takes no string); where it is false for both keys, the check
  \<^verbatim>\<open>len(override) > 0\<close> raises the error of unknown overrides.
\<close>

definition str_contains :: "string \<Rightarrow> string \<Rightarrow> bool" where
  "str_contains s sub = list_ex (\<lambda>i. take (length sub) (drop i s) = sub) [0 ..< Suc (length s)]"

text \<open>\<open>None\<close> when \<^verbatim>\<open>k in override\<close> is false, else the exception of \<^verbatim>\<open>override.pop(k)\<close>; for the
  values on which \<^verbatim>\<open>in\<close> itself raises, that exception.\<close>

definition non_dict_pop :: "pyval \<Rightarrow> string \<Rightarrow> error option" where
  "non_dict_pop override k =
     (case override of
        PStr s \<Rightarrow> if str_contains s k then Some (AttributeError ''pop'') else None
      | PList xs \<Rightarrow> if PStr k \<in> set xs then Some TypeError else None
      | PTuple xs \<Rightarrow> if PStr k \<in> set xs then Some (AttributeError ''pop'') else None
      | _ \<Rightarrow> Some TypeError)"

text \<open>
  The \<^verbatim>\<open>if override:\<close> block of the constructors of the normal, occlusion, roughness,
  metalness and diffuse classes. They differ in the swizzle
  that a replaced \<^verbatim>\<open>uri\<close> forces and in the name of the modifier key; \<open>base\<close> is
  \<open>(uri, swizzle, strength)\<close> as set before the block.
\<close>

definition apply_override ::
  "python \<Rightarrow> string \<Rightarrow> string \<Rightarrow> pyval \<times> string \<times> pyval \<Rightarrow> pyval \<Rightarrow> error + pyval \<times> string \<times> pyval" where
  "apply_override py tex_swizzle key base override =
     (if \<not> py_truthy override then Inr base
      else case override of
        PDict d \<Rightarrow>
          (case base of (u, s, v) \<Rightarrow>
           (case (case dict_pop d ''uri'' of
                    Some (x, d') \<Rightarrow> (x, tex_swizzle, d')
                  | None \<Rightarrow> (u, s, d)) of (u1, s1, d1) \<Rightarrow>
            ebind (case dict_pop d1 key of
                     Some (m, d') \<Rightarrow> ebind (modulate py v m) (\<lambda>x. Inr (x, d'))
                   | None \<Rightarrow> Inr (v, d1))
              (\<lambda>(v2, d2).
                 if d2 \<noteq> [] then Inl (UnknownOverrides (PDict d2))
                 else Inr (u1, s1, v2))))
      | _ \<Rightarrow>
          (case non_dict_pop override ''uri'' of
             Some e \<Rightarrow> Inl e
           | None \<Rightarrow>
          (case non_dict_pop override key of
             Some e \<Rightarrow> Inl e
           | None \<Rightarrow> Inl (UnknownOverrides override))))"

definition DXSpec_NormalTexture_init ::
  "python \<Rightarrow> GLTF_NormalTexture option \<Rightarrow> GLTFSrc \<Rightarrow> pyval \<Rightarrow> error + DXSpec_NormalTexture" where
  "DXSpec_NormalTexture_init py obj src override =
     ebind (case obj of
              None \<Rightarrow> Inr (PNone, ''hh'', PNum 1)
            | Some t \<Rightarrow> ebind (texture_idx2uri src (g_index t)) (\<lambda>u. Inr (u, ''rg'', g_scale t)))
       (\<lambda>base. ebind (apply_override py ''rg'' ''scale'' base override)
       (\<lambda>(u, s, v). Inr \<lparr>uri = u, swizzle = s, scale = v\<rparr>))"

definition DXSpec_OcclusionTexture_init ::
  "python \<Rightarrow> GLTF_OcclusionTexture option \<Rightarrow> GLTFSrc \<Rightarrow> pyval \<Rightarrow> error + DXSpec_OcclusionTexture" where
  "DXSpec_OcclusionTexture_init py obj src override =
     ebind (case obj of
              None \<Rightarrow> Inr (PNone, ''1'', PNum 1)
            | Some t \<Rightarrow> ebind (texture_idx2uri src (g_index t)) (\<lambda>u. Inr (u, ''r'', g_strength t)))
       (\<lambda>base. ebind (apply_override py ''r'' ''strength'' base override)
       (\<lambda>(u, s, v). Inr \<lparr>uri = u, swizzle = s, strength = v\<rparr>))"

text \<open>\<^verbatim>\<open>default_strength\<close> of the roughness and of the metalness class.\<close>

definition roughness_default_strength :: pyval where
  "roughness_default_strength = PNum 1"

definition metalness_default_strength :: pyval where
  "metalness_default_strength = PNum 0"

definition DXSpec_RoughnessTexture_init ::
  "python \<Rightarrow> GLTF_PBRMetallicRoughness option \<Rightarrow> GLTFSrc \<Rightarrow> pyval \<Rightarrow> error + DXSpec_RoughnessTexture" where
  "DXSpec_RoughnessTexture_init py obj src override =
     ebind (case obj of
              None \<Rightarrow> Inr (PNone, ''1'', roughness_default_strength)
            | Some pbr \<Rightarrow>
                (case g_metallic_roughness_texture pbr of
                   Some texture \<Rightarrow>
                     ebind (texture_idx2uri src (g_index texture))
                       (\<lambda>u. Inr (u, ''g'', py_or (g_roughness_factor pbr) (PNum 1)))
                 | None \<Rightarrow>
                     Inr (PNone, ''1'', py_or (g_roughness_factor pbr) roughness_default_strength)))
       (\<lambda>base. ebind (apply_override py ''g'' ''strength'' base override)
       (\<lambda>(u, s, v). Inr \<lparr>uri = u, swizzle = s, strength = v\<rparr>))"

definition DXSpec_MetalnessTexture_init ::
  "python \<Rightarrow> GLTF_PBRMetallicRoughness option \<Rightarrow> GLTFSrc \<Rightarrow> pyval \<Rightarrow> error + DXSpec_MetalnessTexture" where
  "DXSpec_MetalnessTexture_init py obj src override =
     ebind (case obj of
              None \<Rightarrow> Inr (PNone, ''1'', metalness_default_strength)
            | Some pbr \<Rightarrow>
                (case g_metallic_roughness_texture pbr of
                   Some texture \<Rightarrow>
                     ebind (texture_idx2uri src (g_index texture))
                       (\<lambda>u. Inr (u, ''b'', py_or (g_metallic_factor pbr) (PNum 1)))
                 | None \<Rightarrow>
                     Inr (PNone, ''1'', py_or (g_metallic_factor pbr) metalness_default_strength)))
       (\<lambda>base. ebind (apply_override py ''b'' ''strength'' base override)
       (\<lambda>(u, s, v). Inr \<lparr>uri = u, swizzle = s, strength = v\<rparr>))"

definition diffuse_swizzle :: "pyval \<Rightarrow> string" where
  "diffuse_swizzle alpha_mode = (if alpha_mode = PStr ''OPAQUE'' then ''rgb1'' else ''rgba'')"

definition DXSpec_DiffuseTexture_init ::
  "python \<Rightarrow> GLTF_PBRMetallicRoughness option \<Rightarrow> pyval \<Rightarrow> GLTFSrc \<Rightarrow> pyval \<Rightarrow> error + DXSpec_DiffuseTexture" where
  "DXSpec_DiffuseTexture_init py obj alpha_mode src override =
     ebind (case obj of
              None \<Rightarrow> Inr (PNone, ''1111'', PTuple [PNum 1, PNum 1, PNum 1, PNum 1])
            | Some pbr \<Rightarrow>
                (case g_base_color_texture pbr of
                   Some texture \<Rightarrow>
                     ebind (texture_idx2uri src (g_index texture))
                       (\<lambda>u. Inr (u, diffuse_swizzle alpha_mode, g_base_color_factor pbr))
                 | None \<Rightarrow> Inr (PNone, ''1111'', g_base_color_factor pbr)))
       (\<lambda>base. ebind (apply_override py (diffuse_swizzle alpha_mode) ''strength'' base override)
       (\<lambda>(u, s, v). Inr \<lparr>uri = u, swizzle = s, strength = v\<rparr>))"

definition DXSpec_NormalTexture_get_texture_key ::
  "DXSpec_NormalTexture \<Rightarrow> pyval \<Rightarrow> DXSpec_TextureKey" where
  "DXSpec_NormalTexture_get_texture_key t resolution =
     ([(uri t, swizzle t)], ''BC5_UNORM'', resolution)"

text \<open>\<^verbatim>\<open>self.swizzle[-1]\<close> raises \<^verbatim>\<open>IndexError\<close> on an empty string.\<close>

definition DXSpec_DiffuseTexture_get_texture_key ::
  "DXSpec_DiffuseTexture \<Rightarrow> pyval \<Rightarrow> error + DXSpec_TextureKey" where
  "DXSpec_DiffuseTexture_get_texture_key t resolution =
     (if swizzle t = [] then Inl IndexError
      else Inr ([(uri t, swizzle t)],
                if last (swizzle t) = CHR ''1'' then ''BC1_UNORM_SRGB'' else ''BC3_UNORM_SRGB'',
                resolution))"

record DXSpec_OcclusionRoughnessMetalness =
  occlusion :: DXSpec_OcclusionTexture
  roughness :: DXSpec_RoughnessTexture
  metalness :: DXSpec_MetalnessTexture

text \<open>The constructor pops its three sub-records from the material's override record;
  the record left is returned with the object.\<close>

definition DXSpec_OcclusionRoughnessMetalness_init ::
  "python \<Rightarrow> GLTF_Material \<Rightarrow> GLTFSrc \<Rightarrow> dict \<Rightarrow> error + DXSpec_OcclusionRoughnessMetalness \<times> dict" where
  "DXSpec_OcclusionRoughnessMetalness_init py obj src override =
     (case dict_pop_default override ''occlusion'' PNone of (o_ov, ov1) \<Rightarrow>
      ebind (DXSpec_OcclusionTexture_init py (g_occlusion_texture obj) src o_ov) (\<lambda>occ.
      case dict_pop_default ov1 ''roughness'' PNone of (r_ov, ov2) \<Rightarrow>
      ebind (DXSpec_RoughnessTexture_init py (g_pbr_metallic_roughness obj) src r_ov) (\<lambda>rough.
      case dict_pop_default ov2 ''metalness'' PNone of (m_ov, ov3) \<Rightarrow>
      ebind (DXSpec_MetalnessTexture_init py (g_pbr_metallic_roughness obj) src m_ov) (\<lambda>metal.
      Inr (\<lparr>occlusion = occ, roughness = rough, metalness = metal\<rparr>, ov3)))))"

definition DXSpec_OcclusionRoughnessMetalness_get_texture_key ::
  "DXSpec_OcclusionRoughnessMetalness \<Rightarrow> pyval \<Rightarrow> DXSpec_TextureKey" where
  "DXSpec_OcclusionRoughnessMetalness_get_texture_key t resolution =
     (map (\<lambda>tex. (uri tex, swizzle tex)) [occlusion t, roughness t, metalness t],
      ''BC7_UNORM'', resolution)"

text \<open>
  The emissive constructor assigns its attributes only on some paths, so each field is an
  \<open>option\<close>: \<open>None\<close> is an attribute that was never assigned, and reading it raises
  \<^verbatim>\<open>AttributeError\<close>.
\<close>

record DXSpec_EmissiveTexture =
  em_uri :: "pyval option"
  em_swizzle :: "string option"
  factor :: "pyval option"

text \<open>The \<^verbatim>\<open>if override:\<close> block of the emissive constructor; \<open>base\<close> holds the attributes
  assigned before it. In \<^verbatim>\<open>modulate(self.factor, override.pop('factor'))\<close> the attribute is
  read before the \<^verbatim>\<open>pop\<close>.\<close>

definition emissive_apply_override ::
  "python \<Rightarrow> DXSpec_EmissiveTexture \<Rightarrow> pyval \<Rightarrow> error + DXSpec_EmissiveTexture" where
  "emissive_apply_override py base override =
     (if \<not> py_truthy override then Inr base
      else case override of
        PDict d \<Rightarrow>
          (case (case dict_pop d ''uri'' of
                   Some (x, d') \<Rightarrow> (base\<lparr>em_uri := Some x, em_swizzle := Some ''rgb''\<rparr>, d')
                 | None \<Rightarrow> (base, d)) of (t1, d1) \<Rightarrow>
           ebind (case dict_pop d1 ''factor'' of
                    Some (m, d') \<Rightarrow>
                      (case factor t1 of
                         None \<Rightarrow> Inl (AttributeError ''factor'')
                       | Some f \<Rightarrow> ebind (modulate py f m) (\<lambda>x. Inr (t1\<lparr>factor := Some x\<rparr>, d')))
                  | None \<Rightarrow> Inr (t1, d1))
             (\<lambda>(t2, d2).
                if d2 \<noteq> [] then Inl (UnknownOverrides (PDict d2)) else Inr t2))
      | _ \<Rightarrow>
          (case non_dict_pop override ''uri'' of
             Some e \<Rightarrow> Inl e
           | None \<Rightarrow>
          (case non_dict_pop override ''factor'' of
             Some e \<Rightarrow> Inl (if factor base = None then AttributeError ''factor'' else e)
           | None \<Rightarrow> Inl (UnknownOverrides override))))"

definition DXSpec_EmissiveTexture_init ::
  "python \<Rightarrow> GLTF_Material \<Rightarrow> GLTFSrc \<Rightarrow> pyval \<Rightarrow> error + DXSpec_EmissiveTexture" where
  "DXSpec_EmissiveTexture_init py obj src override =
     ebind (if g_emissive_texture obj \<noteq> None \<or> py_truthy (g_emissive_factor obj) then
              ebind (case g_emissive_texture obj of
                       Some texture \<Rightarrow> texture_idx2uri src (g_index texture)
                     | None \<Rightarrow> Inr PNone)
                (\<lambda>u. Inr \<lparr>em_uri = Some u,
                           em_swizzle = Some (if g_emissive_texture obj \<noteq> None then ''rgb'' else ''111''),
                           factor = Some (py_or (g_emissive_factor obj) (PTuple [PNum 1, PNum 1, PNum 1]))\<rparr>)
            else if override = PNone then Inl CannotConstructEmissive
            else Inr \<lparr>em_uri = None, em_swizzle = None, factor = None\<rparr>)
       (\<lambda>base. emissive_apply_override py base override)"

definition DXSpec_EmissiveTexture_get_texture_key ::
  "DXSpec_EmissiveTexture \<Rightarrow> pyval \<Rightarrow> error + DXSpec_TextureKey" where
  "DXSpec_EmissiveTexture_get_texture_key t resolution =
     (case em_uri t of
        None \<Rightarrow> Inl (AttributeError ''uri'')
      | Some u \<Rightarrow>
     (case em_swizzle t of
        None \<Rightarrow> Inl (AttributeError ''swizzle'')
      | Some s \<Rightarrow> Inr ([(u, s)], ''BC6H_UF16'', resolution)))"

section \<open>dxspec\_material\_utils.py: material assembly\<close>

record DXSpec_Material =
  name :: pyval
  src_file :: pyval
  diffuse :: DXSpec_DiffuseTexture
  normal :: DXSpec_NormalTexture
  orm :: DXSpec_OcclusionRoughnessMetalness
  emissive :: "DXSpec_EmissiveTexture option"
  blend_mode :: pyval
  alpha_cutoff :: pyval
  double_sided :: pyval
  resolution :: pyval

fun is_bool :: "pyval \<Rightarrow> bool" where
  "is_bool (PBool b) = True"
| "is_bool _ = False"

text \<open>
  \<^verbatim>\<open>DXSpec_Material.__init__\<close>. Every \<^verbatim>\<open>override.pop\<close> changes the one override record; the
  record left after each statement is \<open>ov1\<close>, \<open>ov2\<close>, ... in the order of the source.
\<close>

definition DXSpec_Material_init :: "python \<Rightarrow> GLTF_Material \<Rightarrow> GLTFSrc \<Rightarrow> dict \<Rightarrow> error + DXSpec_Material" where
  "DXSpec_Material_init py obj src override =
     (case dict_pop_default override ''blend_mode'' (g_alpha_mode obj) of (bm, ov1) \<Rightarrow>
      if bm \<notin> set [PStr ''OPAQUE'', PStr ''MASK'', PStr ''BLEND''] then Inl AssertionError else
      case dict_pop_default ov1 ''alpha_cutoff'' (g_alpha_cutoff obj) of (ac, ov2) \<Rightarrow>
      if \<not> (is_numeric ac \<or> ac = PNone) then Inl AssertionError else
      case dict_pop_default ov2 ''double_sided'' (g_double_sided obj) of (ds, ov3) \<Rightarrow>
      if \<not> is_bool ds then Inl AssertionError else
      case dict_pop_default ov3 ''diffuse'' PNone of (d_ov, ov4) \<Rightarrow>
      ebind (DXSpec_DiffuseTexture_init py (g_pbr_metallic_roughness obj) bm src d_ov) (\<lambda>dif.
      case dict_pop_default ov4 ''normal'' PNone of (n_ov, ov5) \<Rightarrow>
      ebind (DXSpec_NormalTexture_init py (g_normal_texture obj) src n_ov) (\<lambda>nor.
      ebind (DXSpec_OcclusionRoughnessMetalness_init py obj src ov5) (\<lambda>(orm_t, ov6).
      ebind (if g_emissive_texture obj \<noteq> None \<or> py_truthy (g_emissive_factor obj)
                \<or> map_of ov6 ''emissive'' \<noteq> None
             then (case dict_pop_default ov6 ''emissive'' PNone of (e_ov, ov7) \<Rightarrow>
                   ebind (DXSpec_EmissiveTexture_init py obj src e_ov) (\<lambda>e. Inr (Some e, ov7)))
             else Inr (None, ov6)) (\<lambda>(emi, ov7).
      case dict_pop_default ov7 ''resolution'' (PList [PNum (- 1), PNum (- 1)]) of (res, ov8) \<Rightarrow>
      ebind (py_tuple res) (\<lambda>res_t.
      if ov8 \<noteq> [] then Inl (UnknownOverrides (PDict ov8))
      else Inr \<lparr>name = g_name obj, src_file = gltf_file src,
                diffuse = dif, normal = nor, orm = orm_t, emissive = emi,
                blend_mode = bm, alpha_cutoff = ac, double_sided = ds,
                resolution = res_t\<rparr>))))))"

definition get_diffuse_texture_key :: "DXSpec_Material \<Rightarrow> error + DXSpec_TextureKey" where
  "get_diffuse_texture_key m = DXSpec_DiffuseTexture_get_texture_key (diffuse m) (resolution m)"

definition get_normal_texture_key :: "DXSpec_Material \<Rightarrow> DXSpec_TextureKey" where
  "get_normal_texture_key m = DXSpec_NormalTexture_get_texture_key (normal m) (resolution m)"

definition get_orm_texture_key :: "DXSpec_Material \<Rightarrow> DXSpec_TextureKey" where
  "get_orm_texture_key m = DXSpec_OcclusionRoughnessMetalness_get_texture_key (orm m) (resolution m)"

definition get_emissive_texture_key :: "DXSpec_Material \<Rightarrow> error + DXSpec_TextureKey option" where
  "get_emissive_texture_key m =
     (case emissive m of
        None \<Rightarrow> Inr None
      | Some e \<Rightarrow> ebind (DXSpec_EmissiveTexture_get_texture_key e (resolution m)) (\<lambda>k. Inr (Some k)))"


section \<open>dxspec\_material\_utils.py: texture keys, output names, the material table\<close>

text \<open>The four dictionaries \<^verbatim>\<open>diffuse\<close>, \<^verbatim>\<open>normal\<close>, \<^verbatim>\<open>orm\<close>, \<^verbatim>\<open>emissive\<close> of the container
  classes.\<close>

record 'a per_slot =
  s_diffuse :: 'a
  s_normal :: 'a
  s_orm :: 'a
  s_emissive :: 'a

text \<open>
  A key of a Python \<^verbatim>\<open>dict\<close> must be hashable: a \<^verbatim>\<open>list\<close> and a \<^verbatim>\<open>dict\<close> are not, a \<^verbatim>\<open>tuple\<close> is
  when its elements are.
\<close>

fun py_hashable :: "pyval \<Rightarrow> bool" where
  "py_hashable (PList xs) = False"
| "py_hashable (PDict d) = False"
| "py_hashable (PTuple xs) = list_all py_hashable xs"
| "py_hashable _ = True"

text \<open>
  A \<^verbatim>\<open>dict\<close> and a \<^verbatim>\<open>set\<close> find a key by \<^verbatim>\<open>==\<close>, for which \<^verbatim>\<open>True\<close> is \<^verbatim>\<open>1\<close> and \<^verbatim>\<open>False\<close> is \<^verbatim>\<open>0\<close>, also
  inside a \<^verbatim>\<open>tuple\<close>. \<open>canon\<close> maps a hashable value to a representative of its class: two
  hashable values are equal for Python exactly when their representatives are the same.
  \<open>canon_key\<close> does so for a texture key, whose swizzles and format are strings.
\<close>

fun canon :: "pyval \<Rightarrow> pyval" where
  "canon (PBool b) = PNum (if b then 1 else 0)"
| "canon (PTuple xs) = PTuple (map canon xs)"
| "canon v = v"

definition canon_key :: "DXSpec_TextureKey \<Rightarrow> DXSpec_TextureKey" where
  "canon_key key =
     (case key of (srcs, fmt, res) \<Rightarrow> (map (\<lambda>sub_key. (canon (fst sub_key), snd sub_key)) srcs, fmt, canon res))"

definition key_hashable :: "DXSpec_TextureKey \<Rightarrow> bool" where
  "key_hashable key =
     (case key of (srcs, fmt, res) \<Rightarrow> list_all (\<lambda>sub_key. py_hashable (fst sub_key)) srcs \<and> py_hashable res)"

type_synonym Key2List = "(DXSpec_TextureKey \<times> pyval list) list"

text \<open>\<^verbatim>\<open>key2list[key].append(mat_name)\<close> on a \<^verbatim>\<open>DefaultDict(list)\<close>. The dictionary holds the
  representatives of its keys, so that the entry of a key is found as Python finds it.\<close>

definition key2list_append :: "Key2List \<Rightarrow> DXSpec_TextureKey \<Rightarrow> pyval \<Rightarrow> error + Key2List" where
  "key2list_append kl key mat_name =
     (if \<not> key_hashable key then Inl TypeError
      else Inr (AList.update (canon_key key)
                  ((case map_of kl (canon_key key) of None \<Rightarrow> [] | Some vs \<Rightarrow> vs) @ [mat_name]) kl))"

text \<open>The body of the loop over the material database in
  \<^verbatim>\<open>DXSpec_TextureKeysContainer.__init__\<close>. A key is a tuple of three, which is true.\<close>

definition keys_step :: "Key2List per_slot \<Rightarrow> pyval \<times> DXSpec_Material \<Rightarrow> error + Key2List per_slot" where
  "keys_step k2l item =
     (case item of (mat_name, spec_mat) \<Rightarrow>
      ebind (get_diffuse_texture_key spec_mat) (\<lambda>diff_key.
      ebind (key2list_append (s_diffuse k2l) diff_key mat_name) (\<lambda>d.
      ebind (key2list_append (s_normal k2l) (get_normal_texture_key spec_mat) mat_name) (\<lambda>n.
      ebind (key2list_append (s_orm k2l) (get_orm_texture_key spec_mat) mat_name) (\<lambda>r.
      ebind (get_emissive_texture_key spec_mat) (\<lambda>em_key.
      ebind (case em_key of
               None \<Rightarrow> Inr (s_emissive k2l)
             | Some k \<Rightarrow> key2list_append (s_emissive k2l) k mat_name) (\<lambda>e.
      Inr \<lparr>s_diffuse = d, s_normal = n, s_orm = r, s_emissive = e\<rparr>)))))))"

fun keys_loop :: "Key2List per_slot \<Rightarrow> (pyval \<times> DXSpec_Material) list \<Rightarrow> error + Key2List per_slot" where
  "keys_loop k2l [] = Inr k2l"
| "keys_loop k2l (item # items) = ebind (keys_step k2l item) (\<lambda>k2l'. keys_loop k2l' items)"

text \<open>A dict comprehension over a list of pairs: a later pair replaces an earlier one
  of the same key.\<close>

definition dict_of :: "('k \<times> 'v) list \<Rightarrow> ('k \<times> 'v) list" where
  "dict_of kvs = foldl (\<lambda>d kv. AList.update (fst kv) (snd kv) d) [] kvs"

text \<open>\<^verbatim>\<open>{ v: k for k, vs in key2list.items() for v in vs }\<close>\<close>

definition invert_key2list :: "Key2List \<Rightarrow> (pyval \<times> DXSpec_TextureKey) list" where
  "invert_key2list kl = dict_of (concat (map (\<lambda>(k, vs). map (\<lambda>v. (v, k)) vs) kl))"

record DXSpec_TextureKeysContainer =
  key2list :: "Key2List per_slot"
  str2key :: "(pyval \<times> DXSpec_TextureKey) list per_slot"

definition DXSpec_TextureKeysContainer_init ::
  "(pyval \<times> DXSpec_Material) list \<Rightarrow> error + DXSpec_TextureKeysContainer" where
  "DXSpec_TextureKeysContainer_init dxspec_material_db =
     ebind (keys_loop \<lparr>s_diffuse = [], s_normal = [], s_orm = [], s_emissive = []\<rparr> dxspec_material_db)
       (\<lambda>k2l. Inr \<lparr>key2list = k2l,
                    str2key = \<lparr>s_diffuse = invert_key2list (s_diffuse k2l),
                               s_normal = invert_key2list (s_normal k2l),
                               s_orm = invert_key2list (s_orm k2l),
                               s_emissive = invert_key2list (s_emissive k2l)\<rparr>\<rparr>)"

text \<open>
  \<^verbatim>\<open>name_fold\<close>. \<^verbatim>\<open>Path.stem\<close> belongs to \<^verbatim>\<open>pathlib\<close> and depends on the platform; it is the
  parameter \<open>stem\<close>. A uri that is no \<^verbatim>\<open>Path\<close> (one that an override gave as a string) has no
  attribute \<^verbatim>\<open>stem\<close>. \<^verbatim>\<open>set(paths)\<close> hashes the paths and counts them up to \<^verbatim>\<open>==\<close>.
\<close>

definition replace_backslash :: "string \<Rightarrow> string" where
  "replace_backslash s = map (\<lambda>c. if c = CHR 0x5C then CHR ''/'' else c) s"

definition name_fold :: "(string \<Rightarrow> string) \<Rightarrow> DXSpec_TextureKey \<Rightarrow> string \<Rightarrow> error + string" where
  "name_fold stem key dflt =
     (let paths = filter (\<lambda>u. u \<noteq> PNone) (map fst (fst key)) in
      if paths = [] then Inr dflt
      else if \<not> list_all py_hashable paths then Inl TypeError
      else if length (remdups (map canon paths)) = 1 then
        (case hd paths of
           PPath p \<Rightarrow> Inr (replace_backslash (stem p @ ''.dds''))
         | _ \<Rightarrow> Inl (AttributeError ''stem''))
      else Inl CannotFold)"

type_synonym Str2Key = "(string \<times> DXSpec_TextureKey) list"
type_synonym Key2Str = "(DXSpec_TextureKey \<times> string) list"

text \<open>The inner loop of \<^verbatim>\<open>DXSpec_TextureSpecContainer.__init__\<close> over the keys of one slot
  kind: \<open>texture_outs\<close> maps names to keys, \<open>texture_outs_inv\<close> keys to names.\<close>

fun fold_keys ::
  "(string \<Rightarrow> string) \<Rightarrow> string \<Rightarrow> DXSpec_TextureKey list \<Rightarrow> Str2Key \<times> Key2Str \<Rightarrow> error + Str2Key \<times> Key2Str" where
  "fold_keys stem dflt [] outs = Inr outs"
| "fold_keys stem dflt (key # keys) (texture_outs, texture_outs_inv) =
     ebind (name_fold stem key dflt) (\<lambda>key_name_fold.
       if map_of texture_outs key_name_fold \<noteq> None then Inl OutnameExists
       else if map_of texture_outs_inv key \<noteq> None then Inl OutnameInverseExists
       else fold_keys stem dflt keys
              (AList.update key_name_fold key texture_outs,
               AList.update key key_name_fold texture_outs_inv))"

record DXSpec_TextureSpecContainer =
  key2str :: "Key2Str per_slot"
  out_str2key :: "Str2Key per_slot"

definition DXSpec_TextureSpecContainer_init ::
  "(string \<Rightarrow> string) \<Rightarrow> DXSpec_TextureKeysContainer \<Rightarrow> error + DXSpec_TextureSpecContainer" where
  "DXSpec_TextureSpecContainer_init stem dxspec_texture_keys_db =
     (let k2l = key2list dxspec_texture_keys_db in
      ebind (fold_keys stem ''$DEFAULT_DIFFUSE'' (map fst (s_diffuse k2l)) ([], [])) (\<lambda>(sd, kd).
      ebind (fold_keys stem ''$DEFAULT_NORMAL'' (map fst (s_normal k2l)) ([], [])) (\<lambda>(sn, kn).
      ebind (fold_keys stem ''$DEFAULT_ORM'' (map fst (s_orm k2l)) ([], [])) (\<lambda>(so, ko).
      ebind (fold_keys stem ''$DEFAULT_EMISSIVE'' (map fst (s_emissive k2l)) ([], [])) (\<lambda>(se, ke).
      Inr \<lparr>key2str = \<lparr>s_diffuse = kd, s_normal = kn, s_orm = ko, s_emissive = ke\<rparr>,
           out_str2key = \<lparr>s_diffuse = sd, s_normal = sn, s_orm = so, s_emissive = se\<rparr>\<rparr>)))))"

text \<open>\<^verbatim>\<open>{ k: tex_outs[v] for k, v in tex_keys.items() }\<close> of \<^verbatim>\<open>DXSpec_Mat2TextureContainer\<close>\<close>

fun mat2texture :: "Key2Str \<Rightarrow> (pyval \<times> DXSpec_TextureKey) list \<Rightarrow> error + (pyval \<times> string) list" where
  "mat2texture tex_outs [] = Inr []"
| "mat2texture tex_outs ((k, v) # items) =
     (case map_of tex_outs v of
        None \<Rightarrow> Inl KeyError_texture_key
      | Some n \<Rightarrow> ebind (mat2texture tex_outs items) (\<lambda>rest. Inr ((k, n) # rest)))"

definition DXSpec_Mat2TextureContainer_init ::
  "DXSpec_TextureKeysContainer \<Rightarrow> DXSpec_TextureSpecContainer \<Rightarrow> error + (pyval \<times> string) list per_slot" where
  "DXSpec_Mat2TextureContainer_init dxspec_texture_keys_db dxspec_texture_outs_db =
     (let tex_outs = key2str dxspec_texture_outs_db; tex_keys = str2key dxspec_texture_keys_db in
      ebind (mat2texture (s_diffuse tex_outs) (s_diffuse tex_keys)) (\<lambda>d.
      ebind (mat2texture (s_normal tex_outs) (s_normal tex_keys)) (\<lambda>n.
      ebind (mat2texture (s_orm tex_outs) (s_orm tex_keys)) (\<lambda>r.
      ebind (mat2texture (s_emissive tex_outs) (s_emissive tex_keys)) (\<lambda>e.
      Inr \<lparr>s_diffuse = d, s_normal = n, s_orm = r, s_emissive = e\<rparr>)))))"

section \<open>\_\_main\_\_.py: the steps of a run\<close>

text \<open>
  In \<^verbatim>\<open>parse_materials\<close>, the override of one material. The table
  \<^verbatim>\<open>material_spec_overrides\<close> is a \<^verbatim>\<open>dict[str, dict]\<close>. The global entry \<^verbatim>\<open>'*'\<close> is popped from
  it first (an empty record when there is none); then, for a material, its entry is
  popped (an empty record when there is none) and the global entry is written over it.
  \<open>curr_override\<close> is the override given to \<^verbatim>\<open>DXSpec_Material\<close>, with the table left.
\<close>

definition material_spec_override_global :: "(string \<times> dict) list \<Rightarrow> dict \<times> (string \<times> dict) list" where
  "material_spec_override_global material_spec_overrides =
     (case map_of material_spec_overrides ''*'' of
        None \<Rightarrow> ([], material_spec_overrides)
      | Some g \<Rightarrow> (g, AList.delete ''*'' material_spec_overrides))"

definition curr_override :: "dict \<Rightarrow> (string \<times> dict) list \<Rightarrow> string \<Rightarrow> dict \<times> (string \<times> dict) list" where
  "curr_override global_override material_spec_overrides mat_name =
     (case map_of material_spec_overrides mat_name of
        None \<Rightarrow> (recursive_overwrite [] global_override, material_spec_overrides)
      | Some ov \<Rightarrow> (recursive_overwrite ov global_override, AList.delete mat_name material_spec_overrides))"

text \<open>The three containers that \<^verbatim>\<open>main\<close> builds from the material database.\<close>

definition material_textures ::
  "(string \<Rightarrow> string) \<Rightarrow> (pyval \<times> DXSpec_Material) list \<Rightarrow> error + (pyval \<times> string) list per_slot" where
  "material_textures stem dxspec_material_db =
     ebind (DXSpec_TextureKeysContainer_init dxspec_material_db) (\<lambda>dxspec_texture_keys_db.
     ebind (DXSpec_TextureSpecContainer_init stem dxspec_texture_keys_db) (\<lambda>dxspec_texture_outs_db.
     DXSpec_Mat2TextureContainer_init dxspec_texture_keys_db dxspec_texture_outs_db))"


section \<open>Notions for the statements\<close>

text \<open>
  What the statements below assume of the arithmetic of the interpreter: the product and
  the sum of two numbers, when the operation returns, is a number.
\<close>

definition numeric_ops :: "python \<Rightarrow> bool" where
  "numeric_ops py =
     (\<forall>a b r. is_numeric a \<and> is_numeric b \<and> (op_mult py a b = Inr r \<or> op_add py a b = Inr r)
        \<longrightarrow> is_numeric r)"

text \<open>
  An instance of the parameters for the evaluations: arithmetic without rounding, which
  is that of Python on \<^verbatim>\<open>int\<close>s and on the \<^verbatim>\<open>float\<close>s of the evaluations below (small integers
  and halves, whose products and sums are \<^verbatim>\<open>float\<close>s again), and \<^verbatim>\<open>float()\<close> on such numbers.
  \<open>num_of\<close> is the number a numeric value stands for (\<^verbatim>\<open>True\<close> is 1).
\<close>

fun num_of :: "pyval \<Rightarrow> real" where
  "num_of (PNum r) = r"
| "num_of (PBool b) = (if b then 1 else 0)"
| "num_of _ = 0"

definition exact_python :: python where
  "exact_python =
     \<lparr>op_mult = (\<lambda>a b. if is_numeric a \<and> is_numeric b then Inr (PNum (num_of a * num_of b))
                        else Inl TypeError),
      op_add = (\<lambda>a b. if is_numeric a \<and> is_numeric b then Inr (PNum (num_of a + num_of b))
                       else Inl TypeError),
      float_of = (\<lambda>x. if is_numeric x then Inr (PNum (num_of x)) else Inl TypeError)\<rparr>"

text \<open>A Python \<^verbatim>\<open>dict\<close> has each key once, also in the records nested in it.\<close>

fun wf_dict :: "dict \<Rightarrow> bool" where
  "wf_dict [] = True"
| "wf_dict ((k, v) # d) =
     (k \<notin> fst ` set d \<and> (case v of PDict b \<Rightarrow> wf_dict b | _ \<Rightarrow> True) \<and> wf_dict d)"

text \<open>The value at a path of keys \<^verbatim>\<open>d[k1][k2]...[kn]\<close>, when every step but the last leads to
  a nested record.\<close>

fun lookup_path :: "dict \<Rightarrow> string list \<Rightarrow> pyval option" where
  "lookup_path d [] = Some (PDict d)"
| "lookup_path d [k] = map_of d k"
| "lookup_path d (k # ks) =
     (case map_of d k of Some (PDict d') \<Rightarrow> lookup_path d' ks | _ \<Rightarrow> None)"

text \<open>What one key holds after \<^verbatim>\<open>recursive_overwrite(A, B)\<close>, given what it held in \<open>A\<close> and
  in \<open>B\<close>: the docstring of the function, read as an equation.\<close>

definition merged_entry :: "pyval option \<Rightarrow> pyval option \<Rightarrow> pyval option" where
  "merged_entry a b =
     (case b of
        None \<Rightarrow> a
      | Some v \<Rightarrow>
          (case (a, v) of
             (Some (PDict x), PDict y) \<Rightarrow> Some (PDict (recursive_overwrite x y))
           | _ \<Rightarrow> Some v))"

text \<open>An override table with a global entry and an entry for the material \<^verbatim>\<open>mat\<close>.\<close>

definition example_overrides :: "(string \<times> dict) list" where
  "example_overrides =
     [(''*'', [(''diffuse'', PDict [(''strength'', PNum 2)]), (''blend_mode'', PStr ''BLEND'')]),
      (''mat'', [(''blend_mode'', PStr ''MASK''),
                 (''diffuse'', PDict [(''uri'', PStr ''a.png''), (''strength'', PNum 1)]),
                 (''double_sided'', PBool True)])]"

text \<open>
  The two constructors in sequence: the glTF object is read by \<^verbatim>\<open>GLTF_Material\<close> of
  gltf\_material\_utils.py and the result converted by \<^verbatim>\<open>DXSpec_Material\<close> with an override.
  This is not the call in \<^verbatim>\<open>parse_materials\<close>: that one is \<^verbatim>\<open>GLTF_Material(mat_src, i)\<close>, with a
  second argument that the constructor does not take, and raises \<^verbatim>\<open>TypeError\<close> for every
  material.
\<close>

definition material_of :: "python \<Rightarrow> GLTFSrc \<Rightarrow> dict \<Rightarrow> dict \<Rightarrow> error + DXSpec_Material" where
  "material_of py gltf_src mat_src override =
     ebind (GLTF_Material_init py mat_src) (\<lambda>gltf_mat. DXSpec_Material_init py gltf_mat gltf_src override)"

text \<open>
  A source document with two textures, for the evaluations below. A texture index is a
  position in a Python list of two: \<^verbatim>\<open>-1\<close> and \<^verbatim>\<open>-2\<close> count from the end, \<^verbatim>\<open>True\<close> and \<^verbatim>\<open>False\<close> are
  \<^verbatim>\<open>1\<close> and \<^verbatim>\<open>0\<close>, another integer is out of range, and what is no integer is no index (a
  number of integral value stands for the \<^verbatim>\<open>int\<close>).
\<close>

definition example_src :: GLTFSrc where
  "example_src =
     \<lparr>gltf_file = PStr ''scene'',
      texture_path =
        (\<lambda>i. if is_numeric i \<and> num_of i \<in> \<int> then
                (if num_of i = 0 \<or> num_of i = - 2 then Inr ''textures/wall.png''
                 else if num_of i = 1 \<or> num_of i = - 1 then Inr ''textures/floor.png''
                 else Inl IndexError)
              else Inl TypeError)\<rparr>"

definition example_masked :: dict where
  "example_masked =
     [(''name'', PStr ''leaf''), (''alphaMode'', PStr ''MASK''), (''alphaCutoff'', PNum (3 / 10)),
      (''doubleSided'', PBool True)]"

definition example_smooth :: dict where
  "example_smooth =
     [(''name'', PStr ''mirror''),
      (''pbrMetallicRoughness'', PDict [(''roughnessFactor'', PNum 0), (''metallicFactor'', PNum 0)])]"

definition example_smooth_textured :: dict where
  "example_smooth_textured =
     [(''name'', PStr ''mirror''),
      (''pbrMetallicRoughness'',
         PDict [(''roughnessFactor'', PNum 0), (''metallicFactor'', PNum 0),
                (''metallicRoughnessTexture'', PDict [(''index'', PNum 1)])])]"

definition example_plain :: dict where
  "example_plain = [(''name'', PStr ''lamp'')]"

definition example_opaque :: dict where
  "example_opaque =
     [(''name'', PStr ''wall''),
      (''pbrMetallicRoughness'', PDict [(''baseColorTexture'', PDict [(''index'', PNum 0)])])]"

definition example_blend :: dict where
  "example_blend =
     [(''name'', PStr ''glass''), (''alphaMode'', PStr ''BLEND''),
      (''pbrMetallicRoughness'', PDict [(''baseColorTexture'', PDict [(''index'', PNum 0)])])]"

text \<open>The compression format of a texture key.\<close>

definition key_format :: "DXSpec_TextureKey \<Rightarrow> string" where
  "key_format key = fst (snd key)"

text \<open>
  An instance of the parameter \<open>stem\<close> for the evaluations: the stem that \<^verbatim>\<open>pathlib\<close> gives
  for the text of a POSIX path. The text is the one \<^verbatim>\<open>str\<close> gives, so it has no empty
  component, does not end in a separator unless it is the root, and has a component \<^verbatim>\<open>.\<close>
  only as the path \<^verbatim>\<open>.\<close> itself, whose name is empty. The name is the part after the last
  \<^verbatim>\<open>/\<close>; the stem is the name up to its last dot, unless that dot is the first or the last
  character of the name.
\<close>

definition posix_stem :: "string \<Rightarrow> string" where
  "posix_stem p =
     (let name = (if p = ''.'' then [] else rev (takeWhile (\<lambda>c. c \<noteq> CHR ''/'') (rev p)));
          ext = takeWhile (\<lambda>c. c \<noteq> CHR ''.'') (rev name)
      in if length ext = length name \<or> ext = [] \<or> length ext + 1 = length name then name
         else take (length name - length ext - 1) name)"

text \<open>Three diffuse keys: a texture at its native resolution, the same texture at 512 by
  512, and the constant white.\<close>

definition example_key_wall :: DXSpec_TextureKey where
  "example_key_wall =
     ([(PPath ''textures/wall.png'', ''rgb1'')], ''BC1_UNORM_SRGB'', PTuple [PNum (- 1), PNum (- 1)])"

definition example_key_wall_512 :: DXSpec_TextureKey where
  "example_key_wall_512 =
     ([(PPath ''textures/wall.png'', ''rgb1'')], ''BC1_UNORM_SRGB'', PTuple [PNum 512, PNum 512])"

definition example_key_white :: DXSpec_TextureKey where
  "example_key_white =
     ([(PNone, ''1111'')], ''BC1_UNORM_SRGB'', PTuple [PNum (- 1), PNum (- 1)])"

text \<open>The pairs \<open>(material name, key)\<close> that a \<^verbatim>\<open>key2list\<close> dictionary holds, in the order of
  its comprehension.\<close>

definition name_key_pairs :: "('k \<times> 'v list) list \<Rightarrow> ('v \<times> 'k) list" where
  "name_key_pairs kl = concat (map (\<lambda>(k, vs). map (\<lambda>v. (v, k)) vs) kl)"

text \<open>The uri of a slot that no override replaced: \<^verbatim>\<open>None\<close>, or the path of a texture of the
  source.\<close>

fun is_source_uri :: "pyval \<Rightarrow> bool" where
  "is_source_uri PNone = True"
| "is_source_uri (PPath p) = True"
| "is_source_uri _ = False"

text \<open>The material database is a \<^verbatim>\<open>dict\<close> from names to materials: its names are hashable and
  differ as Python compares them.\<close>

definition material_db :: "(pyval \<times> DXSpec_Material) list \<Rightarrow> bool" where
  "material_db db =
     (list_all (\<lambda>item. py_hashable (fst item)) db \<and> distinct (map (\<lambda>item. canon (fst item)) db))"

text \<open>Two source materials \<^verbatim>\<open>A\<close> and \<^verbatim>\<open>B\<close> with the same base colour texture and factor.\<close>

definition example_A :: dict where
  "example_A =
     [(''name'', PStr ''A''),
      (''pbrMetallicRoughness'',
         PDict [(''baseColorFactor'', PList [PNum 1, PNum 1, PNum 1, PNum 1]),
                (''baseColorTexture'', PDict [(''index'', PNum 0)])])]"

definition example_B :: dict where
  "example_B =
     [(''name'', PStr ''B''),
      (''pbrMetallicRoughness'',
         PDict [(''baseColorFactor'', PList [PNum 1, PNum 1, PNum 1, PNum 1]),
                (''baseColorTexture'', PDict [(''index'', PNum 0)])])]"

text \<open>The material that both convert to, up to its name and its resolution.\<close>

definition example_wall_material :: "pyval \<Rightarrow> pyval \<Rightarrow> DXSpec_Material" where
  "example_wall_material nm res =
     \<lparr>name = nm, src_file = PStr ''scene'',
      diffuse = \<lparr>uri = PPath ''textures/wall.png'', swizzle = ''rgb1'',
                  strength = PTuple [PNum 1, PNum 1, PNum 1, PNum 1]\<rparr>,
      normal = \<lparr>uri = PNone, swizzle = ''hh'', scale = PNum 1\<rparr>,
      orm = \<lparr>occlusion = \<lparr>uri = PNone, swizzle = ''1'', strength = PNum 1\<rparr>,
              roughness = \<lparr>uri = PNone, swizzle = ''1'', strength = PNum 1\<rparr>,
              metalness = \<lparr>uri = PNone, swizzle = ''1'', strength = PNum 0\<rparr>\<rparr>,
      emissive = None, blend_mode = PStr ''OPAQUE'', alpha_cutoff = PNone,
      double_sided = PBool False, resolution = res\<rparr>"






text \<open>The fields of an override record that are left when every recognised key has been
  popped.\<close>

definition leftover :: "string list \<Rightarrow> dict \<Rightarrow> dict" where
  "leftover keys override = filter (\<lambda>kv. fst kv \<notin> set keys) override"

text \<open>The fields of an override record under the recognised keys: the record without its
  unrecognised fields.\<close>

definition recognized :: "string list \<Rightarrow> dict \<Rightarrow> dict" where
  "recognized keys override = filter (\<lambda>kv. fst kv \<in> set keys) override"






section \<open>Properties of the modulation engine\<close>

lemma ebind_Inr_iff: "ebind m f = Inr y \<longleftrightarrow> (\<exists>x. m = Inr x \<and> f x = Inr y)"
  by (cases m) simp_all

lemma emap_Inr_iff: "emap f xs = Inr ys \<longleftrightarrow> list_all2 (\<lambda>x y. f x = Inr y) xs ys"
proof (induction xs arbitrary: ys)
  case Nil
  show ?case by auto
next
  case (Cons x xs)
  show ?case
    by (cases ys) (auto simp add: ebind_Inr_iff Cons.IH)
qed

lemma not_both_shapes: "is_numeric v \<Longrightarrow> \<not> is_numeric_sequence v"
  by (cases v) simp_all

lemma seq_not_numeric: "is_numeric_sequence v \<Longrightarrow> \<not> is_numeric v"
  by (cases v) simp_all

lemma numeric_not_None: "is_numeric v \<Longrightarrow> v \<noteq> PNone"
  by auto

lemma numeric_seq_not_None: "is_numeric_sequence v \<Longrightarrow> v \<noteq> PNone"
  by auto

lemma numeric_seq_items: "is_numeric_sequence v \<Longrightarrow> list_all is_numeric (items_of v)"
  by (cases v) simp_all

lemma modulate_impl_literal: "\<not> is_dict m \<Longrightarrow> modulate_impl py x m = Inr m"
  by (cases m) (simp_all add: modulate_impl_def)

text \<open>
  C3, as the code has it. \<^verbatim>\<open>_modulate\<close> returns a literal modifier whatever the original
  is. \<^verbatim>\<open>modulate\<close> then asserts that the result is numeric exactly when the original is,
  and a numeric sequence exactly when the original is: a literal of the shape of the
  original is returned, a literal of another shape fails the assertion.
\<close>

theorem modulate_literal:
  "\<not> is_dict modifier \<Longrightarrow>
     modulate_impl py original modifier = Inr modifier \<and>
     modulate py original modifier =
       (if is_numeric original = is_numeric modifier \<and>
           is_numeric_sequence original = is_numeric_sequence modifier
        then Inr modifier else Inl AssertionError)"
  by (simp add: modulate_def modulate_impl_literal)

theorem modulate_literal_witness:
  "\<not> is_dict (PNum 2) \<and> modulate exact_python (PNum 1) (PNum 2) = Inr (PNum 2) \<and>
   modulate exact_python (PTuple [PNum 1, PNum 1]) (PList [PNum 0, PNum 5])
     = Inr (PList [PNum 0, PNum 5])"
  using modulate_literal [of "PNum 2" exact_python "PNum 1"]
        modulate_literal [of "PList [PNum 0, PNum 5]" exact_python "PTuple [PNum 1, PNum 1]"]
  by simp

text \<open>
  C3 as stated fails: the scalar original \<^verbatim>\<open>1.0\<close> with the vector literal \<^verbatim>\<open>[1, 2, 3]\<close> does
  not return the literal, it fails the first assertion of \<^verbatim>\<open>modulate\<close>.
\<close>

theorem modulate_literal_counterexample:
  "\<not> is_dict (PList [PNum 1, PNum 2, PNum 3]) \<and>
   modulate exact_python (PNum 1) (PList [PNum 1, PNum 2, PNum 3]) = Inl AssertionError"
  by (simp add: modulate_def modulate_impl_def)


lemma dict_pop_Some: "map_of d k = Some v \<Longrightarrow> dict_pop d k = Some (v, AList.delete k d)"
  by (simp add: dict_pop_def)

lemma map_of_delete_other: "k \<noteq> k' \<Longrightarrow> map_of (AList.delete k d) k' = map_of d k'"
  by (simp add: delete_conv')

lemma modulate_impl_directive:
  assumes "map_of d ''op'' = Some (PStr op)" and "op = ''mult'' \<or> op = ''add''"
    and "map_of d ''value'' = Some val"
  shows "modulate_impl py original (PDict d) =
     (if original = PNone then Inl CannotModulateNone
               else if \<not> (is_numeric original \<or> is_numeric_sequence original)
                 then Inl (OriginalNotNumeric original)
               else if \<not> (is_numeric val \<or> is_numeric_sequence val)
                 then Inl (ValueNotNumeric val)
               else if is_numeric original \<and> is_numeric val
                 then match_op py (PStr op) original val
               else if is_numeric original \<and> is_numeric_sequence val
                 then Inl FloatByTuple
               else if is_numeric_sequence original \<and> is_numeric val
                 then ebind (emap (\<lambda>x. match_op py (PStr op) x val) (items_of original))
                        (\<lambda>out. Inr (PTuple out))
               else if is_numeric_sequence original \<and> is_numeric_sequence val
                 then (if length (items_of original) \<noteq> length (items_of val)
                       then Inl LengthMismatch
                       else ebind (emap (\<lambda>(x, v). match_op py (PStr op) x v)
                                     (zip (items_of original) (items_of val)))
                              (\<lambda>out. Inr (PTuple out)))
               else Inl AssertionError)"
proof -
  have 1: "dict_pop d ''op'' = Some (PStr op, AList.delete ''op'' d)"
    by (rule dict_pop_Some) (rule assms(1))
  have "map_of (AList.delete ''op'' d) ''value'' = Some val"
    using assms(3) by (simp add: map_of_delete_other)
  then have 2: "dict_pop (AList.delete ''op'' d) ''value''
      = Some (val, AList.delete ''value'' (AList.delete ''op'' d))"
    by (rule dict_pop_Some)
  have 3: "\<not> (PStr op \<noteq> PStr ''mult'' \<and> PStr op \<noteq> PStr ''add'')"
    using assms(2) by simp
  show ?thesis
    unfolding modulate_impl_def by (simp only: pyval.case 1 2 option.case prod.case 3 if_False)
qed

lemma match_op_numeric:
  assumes "numeric_ops py" "is_numeric a" "is_numeric b" "match_op py op a b = Inr r"
  shows "is_numeric r"
  using assms unfolding numeric_ops_def match_op_def
  by (metis (full_types))

lemma emap_numeric:
  assumes "numeric_ops py" "is_numeric b"
  shows "list_all is_numeric xs \<Longrightarrow> emap (\<lambda>x. match_op py op x b) xs = Inr ys
         \<Longrightarrow> list_all is_numeric ys"
proof (induction xs arbitrary: ys)
  case Nil
  then show ?case by auto
next
  case (Cons x xs)
  from Cons.prems(2) obtain y ys' where y: "match_op py op x b = Inr y"
    and ys': "emap (\<lambda>x. match_op py op x b) xs = Inr ys'" and ys: "ys = y # ys'"
    by (auto simp add: ebind_Inr_iff)
  have "is_numeric y"
    using match_op_numeric [OF assms(1) _ assms(2) y] Cons.prems(1) by simp
  moreover have "list_all is_numeric ys'"
    using Cons.IH [OF _ ys'] Cons.prems(1) by simp
  ultimately show ?case by (simp add: ys)
qed

lemma emap_zip_numeric:
  assumes "numeric_ops py"
  shows "list_all is_numeric xs \<Longrightarrow> list_all is_numeric vs
         \<Longrightarrow> emap (\<lambda>(x, v). match_op py op x v) (zip xs vs) = Inr ys
         \<Longrightarrow> list_all is_numeric ys"
proof (induction xs arbitrary: vs ys)
  case Nil
  then show ?case by auto
next
  case (Cons x xs)
  show ?case
  proof (cases vs)
    case Nil
    then show ?thesis using Cons.prems(3) by auto
  next
    case (Cons v vs')
    from Cons.prems(3) obtain y ys' where y: "match_op py op x v = Inr y"
      and ys': "emap (\<lambda>(x, v). match_op py op x v) (zip xs vs') = Inr ys'" and ys: "ys = y # ys'"
      by (auto simp add: Cons ebind_Inr_iff)
    have "is_numeric y"
      using match_op_numeric [OF assms(1) _ _ y] Cons.prems(1,2) Cons by simp
    moreover have "list_all is_numeric ys'"
      using Cons.IH [OF _ _ ys'] Cons.prems(1,2) Cons by simp
    ultimately show ?thesis by (simp add: ys)
  qed
qed

lemma shape_check_scalar:
  assumes "is_numeric original" "\<And>out. r = Inr out \<Longrightarrow> is_numeric out"
  shows "(case r of Inl e \<Rightarrow> Inl e
          | Inr out \<Rightarrow>
              if is_numeric original \<noteq> is_numeric out then Inl AssertionError
              else if is_numeric_sequence original \<noteq> is_numeric_sequence out then Inl AssertionError
              else Inr out) = r"
  using assms by (cases r) (simp_all add: not_both_shapes)

lemma shape_check_vector:
  assumes "is_numeric_sequence original" "\<And>out. r = Inr out \<Longrightarrow> list_all is_numeric out"
  shows "(case ebind r (\<lambda>out. Inr (PTuple out)) of Inl e \<Rightarrow> Inl e
          | Inr out \<Rightarrow>
              if is_numeric original \<noteq> is_numeric out then Inl AssertionError
              else if is_numeric_sequence original \<noteq> is_numeric_sequence out then Inl AssertionError
              else Inr out) = ebind r (\<lambda>out. Inr (PTuple out))"
  using assms by (cases r) (simp_all add: seq_not_numeric)

lemma modulate_scalar_scalar:
  assumes "numeric_ops py" "map_of d ''op'' = Some (PStr op)" "op = ''mult'' \<or> op = ''add''"
    "map_of d ''value'' = Some val" "is_numeric original" "is_numeric val"
  shows "modulate py original (PDict d) = match_op py (PStr op) original val"
proof -
  have "modulate_impl py original (PDict d) = match_op py (PStr op) original val"
    using assms(5,6) by (simp add: modulate_impl_directive [OF assms(2,3,4)] numeric_not_None)
  then show ?thesis
    unfolding modulate_def
    using shape_check_scalar [OF assms(5), of "match_op py (PStr op) original val"]
      match_op_numeric [OF assms(1,5,6)]
    by simp
qed

lemma modulate_vector_scalar:
  assumes "numeric_ops py" "map_of d ''op'' = Some (PStr op)" "op = ''mult'' \<or> op = ''add''"
    "map_of d ''value'' = Some val" "is_numeric_sequence original" "is_numeric val"
  shows "modulate py original (PDict d) =
           ebind (emap (\<lambda>x. match_op py (PStr op) x val) (items_of original))
             (\<lambda>out. Inr (PTuple out))"
proof -
  have "modulate_impl py original (PDict d) =
          ebind (emap (\<lambda>x. match_op py (PStr op) x val) (items_of original))
             (\<lambda>out. Inr (PTuple out))"
    using assms(5,6)
    by (simp add: modulate_impl_directive [OF assms(2,3,4)] numeric_seq_not_None seq_not_numeric)
  then show ?thesis
    unfolding modulate_def
    using shape_check_vector [OF assms(5),
        of "emap (\<lambda>x. match_op py (PStr op) x val) (items_of original)"]
      emap_numeric [OF assms(1,6) numeric_seq_items [OF assms(5)]]
    by simp
qed

lemma modulate_vector_vector:
  assumes "numeric_ops py" "map_of d ''op'' = Some (PStr op)" "op = ''mult'' \<or> op = ''add''"
    "map_of d ''value'' = Some val" "is_numeric_sequence original" "is_numeric_sequence val"
    "length (items_of original) = length (items_of val)"
  shows "modulate py original (PDict d) =
           ebind (emap (\<lambda>(x, v). match_op py (PStr op) x v) (zip (items_of original) (items_of val)))
             (\<lambda>out. Inr (PTuple out))"
proof -
  have "modulate_impl py original (PDict d) =
          ebind (emap (\<lambda>(x, v). match_op py (PStr op) x v) (zip (items_of original) (items_of val)))
             (\<lambda>out. Inr (PTuple out))"
    using assms(5,6,7)
    by (simp add: modulate_impl_directive [OF assms(2,3,4)] numeric_seq_not_None seq_not_numeric)
  then show ?thesis
    unfolding modulate_def
    using shape_check_vector [OF assms(5),
        of "emap (\<lambda>(x, v). match_op py (PStr op) x v) (zip (items_of original) (items_of val))"]
      emap_zip_numeric [OF assms(1) numeric_seq_items [OF assms(5)] numeric_seq_items [OF assms(6)]]
    by simp
qed

lemma modulate_vector_mismatch:
  assumes "map_of d ''op'' = Some (PStr op)" "op = ''mult'' \<or> op = ''add''"
    "map_of d ''value'' = Some val" "is_numeric_sequence original" "is_numeric_sequence val"
    "length (items_of original) \<noteq> length (items_of val)"
  shows "modulate py original (PDict d) = Inl LengthMismatch"
  using assms(4,5,6)
  by (simp add: modulate_def modulate_impl_directive [OF assms(1,2,3)] numeric_seq_not_None
        seq_not_numeric)

lemma modulate_shape:
  "modulate py original modulator = Inr out \<Longrightarrow>
     is_numeric out = is_numeric original \<and>
     is_numeric_sequence out = is_numeric_sequence original"
  unfolding modulate_def
  by (cases "modulate_impl py original modulator") (simp_all split: if_splits)

lemma numeric_ops_exact_python: "numeric_ops exact_python"
  by (auto simp add: numeric_ops_def exact_python_def)

lemma match_op_exact:
  "match_op exact_python (PStr ''mult'') (PNum a) (PNum b) = Inr (PNum (a * b))"
  "match_op exact_python (PStr ''add'') (PNum a) (PNum b) = Inr (PNum (a + b))"
  by (simp_all add: match_op_def exact_python_def)

text \<open>
  C10. The products and sums are those of the interpreter, \<open>match_op py\<close>, of which the
  statement assumes only that on two numbers they give a number when they return. The
  directive is any \<^verbatim>\<open>dict\<close> that holds an operator \<^verbatim>\<open>'mult'\<close> or \<^verbatim>\<open>'add'\<close> under \<^verbatim>\<open>'op'\<close> and a value under
  \<^verbatim>\<open>'value'\<close>. A scalar original with a scalar value gives the product or sum, a scalar. A
  vector original with a scalar value gives the tuple of the elementwise results, the
  scalar broadcast: a tuple of the length of the original whose element at each position is
  the result for the element of the original there and the value. Two vectors of equal
  length give the tuple of the elementwise results at each position. In each case the
  first operation that raises ends the modulation with its exception. Two vectors of
  different lengths raise the length-mismatch error; and whatever \<^verbatim>\<open>modulate\<close> returns, for
  any modifier, has the numeric shape of the original.
\<close>

theorem modulate_directive_shape:
  assumes "numeric_ops py"
    and "map_of d ''op'' = Some (PStr op)" and "op = ''mult'' \<or> op = ''add''"
    and "map_of d ''value'' = Some val"
  shows "(is_numeric original \<and> is_numeric val \<longrightarrow>
            modulate py original (PDict d) = match_op py (PStr op) original val \<and>
            (\<forall>out. modulate py original (PDict d) = Inr out \<longrightarrow> is_numeric out)) \<and>
         (is_numeric_sequence original \<and> is_numeric val \<longrightarrow>
            modulate py original (PDict d) =
              ebind (emap (\<lambda>x. match_op py (PStr op) x val) (items_of original))
                (\<lambda>out. Inr (PTuple out)) \<and>
            (\<forall>out. modulate py original (PDict d) = Inr out \<longleftrightarrow>
               (\<exists>ys. out = PTuple ys \<and>
                  list_all2 (\<lambda>x y. match_op py (PStr op) x val = Inr y) (items_of original) ys))) \<and>
         (is_numeric_sequence original \<and> is_numeric_sequence val \<and>
          length (items_of original) = length (items_of val) \<longrightarrow>
            modulate py original (PDict d) =
              ebind (emap (\<lambda>(x, v). match_op py (PStr op) x v)
                       (zip (items_of original) (items_of val)))
                (\<lambda>out. Inr (PTuple out)) \<and>
            (\<forall>out. modulate py original (PDict d) = Inr out \<longleftrightarrow>
               (\<exists>ys. out = PTuple ys \<and>
                  list_all2 (\<lambda>(x, v) y. match_op py (PStr op) x v = Inr y)
                    (zip (items_of original) (items_of val)) ys))) \<and>
         (is_numeric_sequence original \<and> is_numeric_sequence val \<and>
          length (items_of original) \<noteq> length (items_of val) \<longrightarrow>
            modulate py original (PDict d) = Inl LengthMismatch) \<and>
         (\<forall>modulator out. modulate py original modulator = Inr out \<longrightarrow>
            is_numeric out = is_numeric original \<and>
            is_numeric_sequence out = is_numeric_sequence original)"
proof (intro conjI impI allI)
  assume a: "is_numeric original \<and> is_numeric val"
  then show "modulate py original (PDict d) = match_op py (PStr op) original val"
    using modulate_scalar_scalar [OF assms] by blast
  fix out assume "modulate py original (PDict d) = Inr out"
  then show "is_numeric out"
    using modulate_shape a by blast
next
  assume a: "is_numeric_sequence original \<and> is_numeric val"
  then show e: "modulate py original (PDict d) =
              ebind (emap (\<lambda>x. match_op py (PStr op) x val) (items_of original))
                (\<lambda>out. Inr (PTuple out))"
    using modulate_vector_scalar [OF assms] by blast
  fix out
  show "modulate py original (PDict d) = Inr out \<longleftrightarrow>
               (\<exists>ys. out = PTuple ys \<and>
                  list_all2 (\<lambda>x y. match_op py (PStr op) x val = Inr y) (items_of original) ys)"
    unfolding e ebind_Inr_iff emap_Inr_iff by auto
next
  assume a: "is_numeric_sequence original \<and> is_numeric_sequence val \<and>
          length (items_of original) = length (items_of val)"
  then show e: "modulate py original (PDict d) =
              ebind (emap (\<lambda>(x, v). match_op py (PStr op) x v)
                       (zip (items_of original) (items_of val)))
                (\<lambda>out. Inr (PTuple out))"
    using modulate_vector_vector [OF assms] by blast
  fix out
  have "emap (\<lambda>(x, v). match_op py (PStr op) x v) zs = Inr ys \<longleftrightarrow>
        list_all2 (\<lambda>(x, v) y. match_op py (PStr op) x v = Inr y) zs ys" for zs ys
    unfolding emap_Inr_iff by (simp add: case_prod_unfold)
  then show "modulate py original (PDict d) = Inr out \<longleftrightarrow>
               (\<exists>ys. out = PTuple ys \<and>
                  list_all2 (\<lambda>(x, v) y. match_op py (PStr op) x v = Inr y)
                    (zip (items_of original) (items_of val)) ys)"
    unfolding e ebind_Inr_iff by auto
next
  assume "is_numeric_sequence original \<and> is_numeric_sequence val \<and>
          length (items_of original) \<noteq> length (items_of val)"
  then show "modulate py original (PDict d) = Inl LengthMismatch"
    using modulate_vector_mismatch [OF assms(2,3,4)] by blast
next
  fix modulator out assume "modulate py original modulator = Inr out"
  then show "is_numeric out = is_numeric original"
    using modulate_shape by blast
next
  fix modulator out assume "modulate py original modulator = Inr out"
  then show "is_numeric_sequence out = is_numeric_sequence original"
    using modulate_shape by blast
qed

text \<open>
  The four examples of the specification, with exact arithmetic; the first directive holds
  its value before its operator, and a key that is not read.
\<close>

theorem modulate_directive_shape_witness:
  "numeric_ops exact_python \<and>
   modulate exact_python (PNum 2)
     (PDict [(''value'', PNum 3), (''note'', PStr ''x''), (''op'', PStr ''mult'')]) = Inr (PNum 6) \<and>
   modulate exact_python (PTuple [PNum 1, PNum 2, PNum 3])
     (PDict [(''op'', PStr ''add''), (''value'', PNum 10)])
     = Inr (PTuple [PNum 11, PNum 12, PNum 13]) \<and>
   modulate exact_python (PTuple [PNum 1, PNum 2])
     (PDict [(''op'', PStr ''add''), (''value'', PList [PNum 3, PNum 4])])
     = Inr (PTuple [PNum 4, PNum 6]) \<and>
   modulate exact_python (PTuple [PNum 1, PNum 2])
     (PDict [(''op'', PStr ''add''), (''value'', PList [PNum 3, PNum 4, PNum 5])])
     = Inl LengthMismatch"
proof -
  note n = numeric_ops_exact_python
  have m: "''mult'' = ''mult'' \<or> ''mult'' = ''add''" by simp
  have a: "''add'' = ''mult'' \<or> ''add'' = ''add''" by simp
  have d1: "map_of [(''value'', PNum 3), (''note'', PStr ''x''), (''op'', PStr ''mult'')] ''op''
              = Some (PStr ''mult'')"
    and v1: "map_of [(''value'', PNum 3), (''note'', PStr ''x''), (''op'', PStr ''mult'')] ''value''
              = Some (PNum 3)"
    by simp_all
  have d: "map_of [(''op'', PStr ''add''), (''value'', v)] ''op'' = Some (PStr ''add'')"
    and v: "map_of [(''op'', PStr ''add''), (''value'', v)] ''value'' = Some v" for v
    by simp_all
  have 1: "modulate exact_python (PNum 2)
     (PDict [(''value'', PNum 3), (''note'', PStr ''x''), (''op'', PStr ''mult'')]) = Inr (PNum 6)"
    using modulate_directive_shape [OF n d1 m v1, of "PNum 2", THEN conjunct1]
    by (simp add: match_op_exact)
  have 2: "modulate exact_python (PTuple [PNum 1, PNum 2, PNum 3])
     (PDict [(''op'', PStr ''add''), (''value'', PNum 10)])
     = Inr (PTuple [PNum 11, PNum 12, PNum 13])"
    using modulate_directive_shape [OF n d a v, of "PTuple [PNum 1, PNum 2, PNum 3]" "PNum 10",
      THEN conjunct2, THEN conjunct1, THEN mp, THEN conjunct1]
    by (simp add: match_op_exact)
  have 3: "modulate exact_python (PTuple [PNum 1, PNum 2])
     (PDict [(''op'', PStr ''add''), (''value'', PList [PNum 3, PNum 4])])
     = Inr (PTuple [PNum 4, PNum 6])"
    using modulate_directive_shape [OF n d a v, of "PTuple [PNum 1, PNum 2]" "PList [PNum 3, PNum 4]",
      THEN conjunct2, THEN conjunct2, THEN conjunct1, THEN mp, THEN conjunct1]
    by (simp add: match_op_exact)
  have 4: "modulate exact_python (PTuple [PNum 1, PNum 2])
     (PDict [(''op'', PStr ''add''), (''value'', PList [PNum 3, PNum 4, PNum 5])])
     = Inl LengthMismatch"
    using modulate_directive_shape [OF n d a v, of "PTuple [PNum 1, PNum 2]"
        "PList [PNum 3, PNum 4, PNum 5]",
      THEN conjunct2, THEN conjunct2, THEN conjunct2, THEN conjunct1]
    by simp
  show ?thesis using n 1 2 3 4 by (intro conjI)
qed


section \<open>Properties of the override merge\<close>

lemma wf_dict_distinct: "wf_dict d \<Longrightarrow> distinct (map fst d)"
  by (induction d rule: wf_dict.induct) auto

lemma wf_dict_nested: "wf_dict d \<Longrightarrow> map_of d k = Some (PDict b) \<Longrightarrow> wf_dict b"
  by (induction d rule: wf_dict.induct) (auto split: if_splits)

lemma recursive_overwrite_step:
  "recursive_overwrite A ((k, v) # B) =
     recursive_overwrite (AList.update k (the (merged_entry (map_of A k) (Some v))) A) B"
  by (auto simp add: merged_entry_def split: option.splits pyval.splits)

lemma merged_entry_None [simp]: "merged_entry a None = a"
  by (simp add: merged_entry_def)

lemma merged_entry_Some: "\<exists>w. merged_entry a (Some v) = Some w"
  by (auto simp add: merged_entry_def split: option.splits pyval.splits)

lemma map_of_recursive_overwrite:
  "distinct (map fst B) \<Longrightarrow>
     map_of (recursive_overwrite A B) k = merged_entry (map_of A k) (map_of B k)"
proof (induction B arbitrary: A)
  case Nil
  then show ?case by simp
next
  case (Cons kv B)
  obtain k' v where kv: "kv = (k', v)" by (cases kv)
  from Cons.prems kv have d: "distinct (map fst B)" and nk: "k' \<notin> fst ` set B" by auto
  obtain w where w: "merged_entry (map_of A k') (Some v) = Some w"
    using merged_entry_Some by blast
  have "map_of (recursive_overwrite A (kv # B)) k
        = merged_entry (map_of (AList.update k' w A) k) (map_of B k)"
    unfolding kv recursive_overwrite_step w using Cons.IH [OF d] by simp
  also have "\<dots> = merged_entry (map_of A k) (map_of (kv # B) k)"
  proof (cases "k = k'")
    case True
    with nk have "map_of B k = None" by (simp add: map_of_eq_None_iff)
    with True w kv show ?thesis by (simp add: update_conv')
  next
    case False
    with kv show ?thesis by (simp add: update_conv')
  qed
  finally show ?case .
qed


lemma lookup_path_Cons:
  "ks \<noteq> [] \<Longrightarrow> lookup_path d (k # ks) =
     (case map_of d k of Some (PDict d') \<Rightarrow> lookup_path d' ks | _ \<Rightarrow> None)"
  by (cases ks) auto

lemma overlay_value_wins:
  "wf_dict B \<Longrightarrow> lookup_path B p = Some v \<Longrightarrow> \<not> is_dict v \<Longrightarrow>
     lookup_path (recursive_overwrite A B) p = Some v"
proof (induction p arbitrary: A B)
  case Nil
  then show ?case by auto
next
  case (Cons k ks)
  note d = wf_dict_distinct [OF Cons.prems(1)]
  show ?case
  proof (cases "ks = []")
    case True
    with Cons.prems have "map_of B k = Some v" by simp
    with Cons.prems(3) True show ?thesis
      by (cases v) (simp_all add: map_of_recursive_overwrite [OF d] merged_entry_def
            split: option.splits pyval.splits)
  next
    case False
    with Cons.prems(2) obtain b where b: "map_of B k = Some (PDict b)"
      and lb: "lookup_path b ks = Some v"
      by (auto simp add: lookup_path_Cons split: option.splits pyval.splits)
    have wb: "wf_dict b" using wf_dict_nested [OF Cons.prems(1) b] .
    show ?thesis
    proof (cases "\<exists>a. map_of A k = Some (PDict a)")
      case True
      then obtain a where a: "map_of A k = Some (PDict a)" by blast
      have "map_of (recursive_overwrite A B) k = Some (PDict (recursive_overwrite a b))"
        by (simp add: map_of_recursive_overwrite [OF d] merged_entry_def a b)
      with False Cons.IH [OF wb lb Cons.prems(3)] show ?thesis
        by (simp add: lookup_path_Cons)
    next
      case no: False
      then have "map_of (recursive_overwrite A B) k = Some (PDict b)"
        by (auto simp add: map_of_recursive_overwrite [OF d] merged_entry_def b
              split: option.splits pyval.splits)
      with False lb show ?thesis by (simp add: lookup_path_Cons)
    qed
  qed
qed

lemma lookup_path_snoc_dict:
  "lookup_path d (p @ [k]) = Some u \<Longrightarrow> p \<noteq> [] \<Longrightarrow> \<exists>a. lookup_path d p = Some (PDict a)"
proof (induction p arbitrary: d)
  case Nil
  then show ?case by simp
next
  case (Cons q qs)
  show ?case
  proof (cases "qs = []")
    case True
    with Cons.prems show ?thesis by (auto split: option.splits pyval.splits)
  next
    case False
    with Cons.prems(1) obtain d' where "map_of d q = Some (PDict d')"
      and "lookup_path d' (qs @ [k]) = Some u"
      by (auto simp add: lookup_path_Cons split: option.splits pyval.splits)
    with Cons.IH [of d'] False show ?thesis by (simp add: lookup_path_Cons)
  qed
qed

lemma base_only_untouched:
  "wf_dict B \<Longrightarrow> lookup_path B p = Some (PDict b) \<Longrightarrow> map_of b k = None \<Longrightarrow>
     lookup_path A (p @ [k]) = Some u \<Longrightarrow>
     lookup_path (recursive_overwrite A B) (p @ [k]) = Some u"
proof (induction p arbitrary: A B)
  case Nil
  then show ?case
    by (simp add: map_of_recursive_overwrite [OF wf_dict_distinct])
next
  case (Cons q qs)
  note d = wf_dict_distinct [OF Cons.prems(1)]
  from Cons.prems(4) obtain a where a: "map_of A q = Some (PDict a)"
    and la: "lookup_path a (qs @ [k]) = Some u"
    by (auto simp add: lookup_path_Cons split: option.splits pyval.splits)
  show ?case
  proof (cases "qs = []")
    case True
    with Cons.prems(2) have bq: "map_of B q = Some (PDict b)" by simp
    have wb: "wf_dict b" using wf_dict_nested [OF Cons.prems(1) bq] .
    have "map_of (recursive_overwrite A B) q = Some (PDict (recursive_overwrite a b))"
      by (simp add: map_of_recursive_overwrite [OF d] merged_entry_def a bq)
    moreover have "map_of (recursive_overwrite a b) k = Some u"
      using la True Cons.prems(3)
      by (simp add: map_of_recursive_overwrite [OF wf_dict_distinct [OF wb]])
    ultimately show ?thesis using True by simp
  next
    case False
    with Cons.prems(2) obtain b' where bq: "map_of B q = Some (PDict b')"
      and lb: "lookup_path b' qs = Some (PDict b)"
      by (auto simp add: lookup_path_Cons split: option.splits pyval.splits)
    have wb: "wf_dict b'" using wf_dict_nested [OF Cons.prems(1) bq] .
    have "map_of (recursive_overwrite A B) q = Some (PDict (recursive_overwrite a b'))"
      by (simp add: map_of_recursive_overwrite [OF d] merged_entry_def a bq)
    with Cons.IH [OF wb lb Cons.prems(3) la] show ?thesis
      by (simp add: lookup_path_Cons)
  qed
qed

lemma keys_recursive_overwrite:
  "distinct (map fst B) \<Longrightarrow>
     map fst (recursive_overwrite A B) = map fst A @ filter (\<lambda>k. k \<notin> set (map fst A)) (map fst B)"
proof (induction B arbitrary: A)
  case Nil
  then show ?case by simp
next
  case (Cons kv B)
  obtain k v where kv: "kv = (k, v)" by (cases kv)
  from Cons.prems kv have d: "distinct (map fst B)" and nk: "k \<notin> set (map fst B)" by auto
  obtain w where w: "merged_entry (map_of A k) (Some v) = Some w"
    using merged_entry_Some by blast
  have f: "filter (\<lambda>x. x \<noteq> k \<and> x \<notin> set (map fst A)) (map fst B)
           = filter (\<lambda>x. x \<notin> set (map fst A)) (map fst B)"
    using nk by (intro filter_cong) auto
  show ?case
    unfolding kv recursive_overwrite_step w
    using nk f by (simp add: Cons.IH [OF d] update_keys)
qed


text \<open>
  C8. The override that \<^verbatim>\<open>parse_materials\<close> hands to a material is the entry of the material
  (or an empty record) overwritten by the global entry. In the result, every path at which
  the global entry holds a value that is no mapping holds that value; a key whose values
  are mappings on both sides holds their recursive merge; a key absent from the global
  entry holds what the entry of the material held, also below mappings that both sides
  have; a key that only the global entry has is added with the value of the global entry
  (a deep copy is the value itself here), after the keys of the material's entry.
\<close>

theorem global_override_merge:
  assumes "wf_dict global_override"
    and "curr_override global_override material_spec_overrides mat_name = (merged, rest)"
    and "ov = (case map_of material_spec_overrides mat_name of None \<Rightarrow> [] | Some d \<Rightarrow> d)"
  shows "merged = recursive_overwrite ov global_override \<and>
     (\<forall>p v. lookup_path global_override p = Some v \<and> \<not> is_dict v \<longrightarrow>
            lookup_path merged p = Some v) \<and>
     (\<forall>k a b. map_of ov k = Some (PDict a) \<and> map_of global_override k = Some (PDict b) \<longrightarrow>
            map_of merged k = Some (PDict (recursive_overwrite a b))) \<and>
     (\<forall>k. map_of global_override k = None \<longrightarrow> map_of merged k = map_of ov k) \<and>
     (\<forall>p k b u. lookup_path global_override p = Some (PDict b) \<and> map_of b k = None \<and>
            lookup_path ov (p @ [k]) = Some u \<longrightarrow> lookup_path merged (p @ [k]) = Some u) \<and>
     (\<forall>k v. map_of ov k = None \<and> map_of global_override k = Some v \<longrightarrow>
            map_of merged k = Some v) \<and>
     map fst merged = map fst ov @ filter (\<lambda>k. k \<notin> set (map fst ov)) (map fst global_override)"
proof -
  note d = wf_dict_distinct [OF assms(1)]
  have m: "merged = recursive_overwrite ov global_override"
    using assms(2,3) by (auto simp add: curr_override_def split: option.splits)
  have 1: "\<forall>p v. lookup_path global_override p = Some v \<and> \<not> is_dict v \<longrightarrow>
            lookup_path merged p = Some v"
    unfolding m using overlay_value_wins [OF assms(1)] by blast
  have 2: "\<forall>k a b. map_of ov k = Some (PDict a) \<and> map_of global_override k = Some (PDict b) \<longrightarrow>
            map_of merged k = Some (PDict (recursive_overwrite a b))"
    unfolding m by (simp add: map_of_recursive_overwrite [OF d] merged_entry_def)
  have 3: "\<forall>k. map_of global_override k = None \<longrightarrow> map_of merged k = map_of ov k"
    unfolding m by (simp add: map_of_recursive_overwrite [OF d])
  have 4: "\<forall>p k b u. lookup_path global_override p = Some (PDict b) \<and> map_of b k = None \<and>
            lookup_path ov (p @ [k]) = Some u \<longrightarrow> lookup_path merged (p @ [k]) = Some u"
    unfolding m using base_only_untouched [OF assms(1)] by blast
  have 5: "\<forall>k v. map_of ov k = None \<and> map_of global_override k = Some v \<longrightarrow>
            map_of merged k = Some v"
    unfolding m by (simp add: map_of_recursive_overwrite [OF d] merged_entry_def)
  have 6: "map fst merged = map fst ov @ filter (\<lambda>k. k \<notin> set (map fst ov)) (map fst global_override)"
    unfolding m by (rule keys_recursive_overwrite [OF d])
  from m 1 2 3 4 5 6 show ?thesis by blast
qed

lemma example_global:
  "material_spec_override_global example_overrides =
     ([(''diffuse'', PDict [(''strength'', PNum 2)]), (''blend_mode'', PStr ''BLEND'')],
      [(''mat'', [(''blend_mode'', PStr ''MASK''),
                 (''diffuse'', PDict [(''uri'', PStr ''a.png''), (''strength'', PNum 1)]),
                 (''double_sided'', PBool True)])])"
  by (simp add: material_spec_override_global_def example_overrides_def)

lemma example_curr_override:
  "curr_override [(''diffuse'', PDict [(''strength'', PNum 2)]), (''blend_mode'', PStr ''BLEND'')]
     [(''mat'', [(''blend_mode'', PStr ''MASK''),
                 (''diffuse'', PDict [(''uri'', PStr ''a.png''), (''strength'', PNum 1)]),
                 (''double_sided'', PBool True)])] ''mat''
   = ([(''blend_mode'', PStr ''BLEND''),
       (''diffuse'', PDict [(''uri'', PStr ''a.png''), (''strength'', PNum 2)]),
       (''double_sided'', PBool True)], [])"
  by (simp add: curr_override_def)

text \<open>
  The example table: the global blend mode and diffuse strength replace those of the
  material, its uri and its double-sidedness stay.
\<close>

theorem global_override_merge_witness:
  "wf_dict (fst (material_spec_override_global example_overrides)) \<and>
   curr_override (fst (material_spec_override_global example_overrides))
     (snd (material_spec_override_global example_overrides)) ''mat''
   = ([(''blend_mode'', PStr ''BLEND''),
       (''diffuse'', PDict [(''uri'', PStr ''a.png''), (''strength'', PNum 2)]),
       (''double_sided'', PBool True)], []) \<and>
   lookup_path (fst (curr_override (fst (material_spec_override_global example_overrides))
     (snd (material_spec_override_global example_overrides)) ''mat'')) [''diffuse'', ''strength'']
   = Some (PNum 2)"
proof -
  let ?g = "fst (material_spec_override_global example_overrides)"
  let ?t = "snd (material_spec_override_global example_overrides)"
  have w: "wf_dict ?g" by (simp add: example_global)
  have c: "curr_override ?g ?t ''mat''
     = ([(''blend_mode'', PStr ''BLEND''),
         (''diffuse'', PDict [(''uri'', PStr ''a.png''), (''strength'', PNum 2)]),
         (''double_sided'', PBool True)], [])"
    by (simp add: example_global example_curr_override)
  have l: "lookup_path ?g [''diffuse'', ''strength''] = Some (PNum 2) \<and> \<not> is_dict (PNum 2)"
    by (simp add: example_global)
  from global_override_merge [OF w c refl, THEN conjunct2, THEN conjunct1] l
  have "lookup_path [(''blend_mode'', PStr ''BLEND''),
         (''diffuse'', PDict [(''uri'', PStr ''a.png''), (''strength'', PNum 2)]),
         (''double_sided'', PBool True)] [''diffuse'', ''strength''] = Some (PNum 2)"
    by blast
  with w c show ?thesis by simp
qed


section \<open>Properties of material assembly\<close>

lemmas gltf_init_defs =
  GLTF_Material_init_def GLTF_PBRMetallicRoughness_init_def GLTF_TextureInfo_init_def
  GLTF_NormalTexture_init_def GLTF_OcclusionTexture_init_def init_def optional_def dict_get_def
  exact_python_def

lemmas dxspec_init_defs =
  DXSpec_Material_init_def DXSpec_DiffuseTexture_init_def DXSpec_NormalTexture_init_def
  DXSpec_OcclusionRoughnessMetalness_init_def DXSpec_OcclusionTexture_init_def
  DXSpec_RoughnessTexture_init_def DXSpec_MetalnessTexture_init_def
  DXSpec_EmissiveTexture_init_def emissive_apply_override_def apply_override_def
  dict_pop_default_def dict_pop_def
  texture_idx2uri_def diffuse_swizzle_def py_or_def
  roughness_default_strength_def metalness_default_strength_def

lemma example_masked_gltf:
  "GLTF_Material_init exact_python example_masked =
     Inr \<lparr>g_name = PStr ''leaf'', g_pbr_metallic_roughness = None, g_normal_texture = None,
          g_occlusion_texture = None, g_emissive_texture = None, g_emissive_factor = PNone,
          g_alpha_mode = PStr ''MASK'', g_alpha_cutoff = PNum (1 / 2),
          g_double_sided = PBool True\<rparr>"
  by (simp add: example_masked_def gltf_init_defs)

text \<open>
  C2 at a source material with alpha mode \<^verbatim>\<open>MASK\<close> that declares \<^verbatim>\<open>alphaCutoff\<close> 0.3 and has no
  override: blend mode and double-sidedness are those of the source, the alpha cutoff is
  the default 0.5, since \<^verbatim>\<open>GLTF_Material\<close> reads the key \<^verbatim>\<open>alphaCuttoff\<close>.
\<close>

theorem alpha_cutoff_of_source_lost:
  "ebind (material_of exact_python example_src example_masked [])
     (\<lambda>m. Inr (blend_mode m, alpha_cutoff m, double_sided m))
   = Inr (PStr ''MASK'', PNum (1 / 2), PBool True)"
  by (simp add: material_of_def example_masked_gltf dxspec_init_defs example_src_def)


lemma example_smooth_gltf:
  "GLTF_Material_init exact_python example_smooth =
     Inr \<lparr>g_name = PStr ''mirror'',
          g_pbr_metallic_roughness =
            Some \<lparr>g_base_color_factor = PTuple [PNum 1, PNum 1, PNum 1, PNum 1],
                  g_base_color_texture = None, g_metallic_factor = PNum 0,
                  g_roughness_factor = PNum 0, g_metallic_roughness_texture = None\<rparr>,
          g_normal_texture = None,
          g_occlusion_texture = None, g_emissive_texture = None, g_emissive_factor = PNone,
          g_alpha_mode = PStr ''OPAQUE'', g_alpha_cutoff = PNone,
          g_double_sided = PBool False\<rparr>"
  by (simp add: example_smooth_def gltf_init_defs)

lemma example_smooth_textured_gltf:
  "GLTF_Material_init exact_python example_smooth_textured =
     Inr \<lparr>g_name = PStr ''mirror'',
          g_pbr_metallic_roughness =
            Some \<lparr>g_base_color_factor = PTuple [PNum 1, PNum 1, PNum 1, PNum 1],
                  g_base_color_texture = None, g_metallic_factor = PNum 0,
                  g_roughness_factor = PNum 0,
                  g_metallic_roughness_texture = Some \<lparr>g_index = PNum 1\<rparr>\<rparr>,
          g_normal_texture = None,
          g_occlusion_texture = None, g_emissive_texture = None, g_emissive_factor = PNone,
          g_alpha_mode = PStr ''OPAQUE'', g_alpha_cutoff = PNone,
          g_double_sided = PBool False\<rparr>"
  by (simp add: example_smooth_textured_def gltf_init_defs)

text \<open>
  C5 at a source material that declares roughness factor 0.0 and metallic factor 0.0.
  Without a metallic-roughness texture the roughness strength is 1.0, not the declared
  0.0 (the metalness strength is 0.0); with the texture both strengths are 1.0:
  \<^verbatim>\<open>factor or default\<close> takes the default for a factor that is zero.
\<close>

theorem zero_factor_replaced:
  "ebind (material_of exact_python example_src example_smooth [])
     (\<lambda>m. Inr (strength (roughness (orm m)), strength (metalness (orm m))))
   = Inr (PNum 1, PNum 0) \<and>
   ebind (material_of exact_python example_src example_smooth_textured [])
     (\<lambda>m. Inr (strength (roughness (orm m)), strength (metalness (orm m))))
   = Inr (PNum 1, PNum 1)"
  by (simp add: material_of_def example_smooth_gltf example_smooth_textured_gltf
        dxspec_init_defs example_src_def)

lemma example_plain_gltf:
  "GLTF_Material_init exact_python example_plain =
     Inr \<lparr>g_name = PStr ''lamp'', g_pbr_metallic_roughness = None, g_normal_texture = None,
          g_occlusion_texture = None, g_emissive_texture = None, g_emissive_factor = PNone,
          g_alpha_mode = PStr ''OPAQUE'', g_alpha_cutoff = PNone,
          g_double_sided = PBool False\<rparr>"
  by (simp add: example_plain_def gltf_init_defs)

text \<open>
  C4 at a source material without emissive texture and factor. When the override names
  the emissive slot with a factor, the constructor reads the attribute \<^verbatim>\<open>factor\<close> that it never
  assigned; with a uri the slot has swizzle \<^verbatim>\<open>rgb\<close> and no factor; with an empty record none
  of its attributes is assigned and its texture key cannot be read. Without the override
  the material has no emissive slot.
\<close>

theorem emissive_override_only:
  "material_of exact_python example_src example_plain
     [(''emissive'', PDict [(''factor'', PList [PNum 1, PNum 0, PNum 0])])]
   = Inl (AttributeError ''factor'') \<and>
   ebind (material_of exact_python example_src example_plain [(''emissive'', PDict [(''uri'', PStr ''glow.png'')])])
     (\<lambda>m. Inr (emissive m))
   = Inr (Some \<lparr>em_uri = Some (PStr ''glow.png''), em_swizzle = Some ''rgb'', factor = None\<rparr>) \<and>
   ebind (material_of exact_python example_src example_plain [(''emissive'', PDict [])])
     (\<lambda>m. Inr (emissive m, get_emissive_texture_key m))
   = Inr (Some \<lparr>em_uri = None, em_swizzle = None, factor = None\<rparr>, Inl (AttributeError ''uri'')) \<and>
   ebind (material_of exact_python example_src example_plain []) (\<lambda>m. Inr (emissive m)) = Inr None"
  by (simp add: material_of_def example_plain_gltf dxspec_init_defs example_src_def
        get_emissive_texture_key_def DXSpec_EmissiveTexture_get_texture_key_def)


lemma example_opaque_gltf:
  "GLTF_Material_init exact_python example_opaque =
     Inr \<lparr>g_name = PStr ''wall'',
          g_pbr_metallic_roughness =
            Some \<lparr>g_base_color_factor = PTuple [PNum 1, PNum 1, PNum 1, PNum 1],
                  g_base_color_texture = Some \<lparr>g_index = PNum 0\<rparr>, g_metallic_factor = PNone,
                  g_roughness_factor = PNone, g_metallic_roughness_texture = None\<rparr>,
          g_normal_texture = None,
          g_occlusion_texture = None, g_emissive_texture = None, g_emissive_factor = PNone,
          g_alpha_mode = PStr ''OPAQUE'', g_alpha_cutoff = PNone,
          g_double_sided = PBool False\<rparr>"
  by (simp add: example_opaque_def gltf_init_defs)

lemma example_blend_gltf:
  "GLTF_Material_init exact_python example_blend =
     Inr \<lparr>g_name = PStr ''glass'',
          g_pbr_metallic_roughness =
            Some \<lparr>g_base_color_factor = PTuple [PNum 1, PNum 1, PNum 1, PNum 1],
                  g_base_color_texture = Some \<lparr>g_index = PNum 0\<rparr>, g_metallic_factor = PNone,
                  g_roughness_factor = PNone, g_metallic_roughness_texture = None\<rparr>,
          g_normal_texture = None,
          g_occlusion_texture = None, g_emissive_texture = None, g_emissive_factor = PNone,
          g_alpha_mode = PStr ''BLEND'', g_alpha_cutoff = PNone,
          g_double_sided = PBool False\<rparr>"
  by (simp add: example_blend_def gltf_init_defs)

lemma example_opaque_diffuse:
  "ebind (material_of exact_python example_src example_opaque []) (\<lambda>m. Inr (diffuse m, resolution m))
   = Inr (\<lparr>uri = PPath ''textures/wall.png'', swizzle = ''rgb1'',
            strength = PTuple [PNum 1, PNum 1, PNum 1, PNum 1]\<rparr>, PTuple [PNum (- 1), PNum (- 1)])"
  by (simp add: material_of_def example_opaque_gltf dxspec_init_defs example_src_def)

lemma example_blend_diffuse:
  "ebind (material_of exact_python example_src example_blend []) (\<lambda>m. Inr (diffuse m, resolution m))
   = Inr (\<lparr>uri = PPath ''textures/wall.png'', swizzle = ''rgba'',
            strength = PTuple [PNum 1, PNum 1, PNum 1, PNum 1]\<rparr>, PTuple [PNum (- 1), PNum (- 1)])"
  by (simp add: material_of_def example_blend_gltf dxspec_init_defs example_src_def)

text \<open>
  C6 as stated fails for the diffuse slot: the same texture gives the format
  \<^verbatim>\<open>BC1_UNORM_SRGB\<close> in an opaque material and \<^verbatim>\<open>BC3_UNORM_SRGB\<close> in a blended one.
\<close>

theorem diffuse_format_counterexample:
  "ebind (material_of exact_python example_src example_opaque [])
     (\<lambda>m. ebind (get_diffuse_texture_key m) (\<lambda>k. Inr (key_format k))) = Inr ''BC1_UNORM_SRGB'' \<and>
   ebind (material_of exact_python example_src example_blend [])
     (\<lambda>m. ebind (get_diffuse_texture_key m) (\<lambda>k. Inr (key_format k))) = Inr ''BC3_UNORM_SRGB''"
proof -
  obtain a where a: "material_of exact_python example_src example_opaque [] = Inr a"
    and da: "swizzle (diffuse a) = ''rgb1''"
    using example_opaque_diffuse by (auto simp add: ebind_Inr_iff)
  obtain b where b: "material_of exact_python example_src example_blend [] = Inr b"
    and db: "swizzle (diffuse b) = ''rgba''"
    using example_blend_diffuse by (auto simp add: ebind_Inr_iff)
  show ?thesis
    by (simp add: a b da db get_diffuse_texture_key_def DXSpec_DiffuseTexture_get_texture_key_def
          key_format_def)
qed

text \<open>
  C6, as the code has it. The format of the normal key is \<^verbatim>\<open>BC5_UNORM\<close>, of the
  occlusion-roughness-metalness key \<^verbatim>\<open>BC7_UNORM\<close>, of an emissive key \<^verbatim>\<open>BC6H_UF16\<close>, for every
  material; the format of the diffuse key is \<^verbatim>\<open>BC1_UNORM_SRGB\<close> when the swizzle of the slot
  ends in \<^verbatim>\<open>1\<close>, and \<^verbatim>\<open>BC3_UNORM_SRGB\<close> otherwise.
\<close>

theorem key_formats:
  "key_format (get_normal_texture_key m) = ''BC5_UNORM'' \<and>
   key_format (get_orm_texture_key m) = ''BC7_UNORM'' \<and>
   (\<forall>k. get_emissive_texture_key m = Inr (Some k) \<longrightarrow> key_format k = ''BC6H_UF16'') \<and>
   (\<forall>k. get_diffuse_texture_key m = Inr k \<longrightarrow>
      key_format k = (if last (swizzle (diffuse m)) = CHR ''1''
                      then ''BC1_UNORM_SRGB'' else ''BC3_UNORM_SRGB''))"
proof (intro conjI allI impI)
  show "key_format (get_normal_texture_key m) = ''BC5_UNORM''"
    by (simp add: key_format_def get_normal_texture_key_def DXSpec_NormalTexture_get_texture_key_def)
next
  show "key_format (get_orm_texture_key m) = ''BC7_UNORM''"
    by (simp add: key_format_def get_orm_texture_key_def
          DXSpec_OcclusionRoughnessMetalness_get_texture_key_def)
next
  fix k assume "get_emissive_texture_key m = Inr (Some k)"
  then show "key_format k = ''BC6H_UF16''"
    by (auto simp add: key_format_def get_emissive_texture_key_def
          DXSpec_EmissiveTexture_get_texture_key_def ebind_Inr_iff split: option.splits)
next
  fix k assume "get_diffuse_texture_key m = Inr k"
  then show "key_format k = (if last (swizzle (diffuse m)) = CHR ''1''
                      then ''BC1_UNORM_SRGB'' else ''BC3_UNORM_SRGB'')"
    by (auto simp add: key_format_def get_diffuse_texture_key_def
          DXSpec_DiffuseTexture_get_texture_key_def split: if_splits)
qed

theorem key_formats_witness:
  "ebind (material_of exact_python example_src example_blend [])
     (\<lambda>m. ebind (get_diffuse_texture_key m)
        (\<lambda>k. Inr (last (swizzle (diffuse m)) = CHR ''1'', key_format k,
                   key_format (get_normal_texture_key m), key_format (get_orm_texture_key m))))
   = Inr (False, ''BC3_UNORM_SRGB'', ''BC5_UNORM'', ''BC7_UNORM'')"
proof -
  obtain b where b: "material_of exact_python example_src example_blend [] = Inr b"
    and db: "swizzle (diffuse b) = ''rgba''"
    using example_blend_diffuse by (auto simp add: ebind_Inr_iff)
  obtain k where k: "get_diffuse_texture_key b = Inr k"
    by (simp add: db get_diffuse_texture_key_def DXSpec_DiffuseTexture_get_texture_key_def)
  from key_formats [of b] k db
  have "key_format k = ''BC3_UNORM_SRGB''" and "key_format (get_normal_texture_key b) = ''BC5_UNORM''"
    and "key_format (get_orm_texture_key b) = ''BC7_UNORM''"
    by simp_all
  then show ?thesis by (simp add: b k db)
qed


section \<open>Properties of output name folding\<close>

lemma fold_keys_Cons_Inr:
  "fold_keys stem dflt (key # keys) (s0, k0) = Inr r \<longleftrightarrow>
     (\<exists>n. name_fold stem key dflt = Inr n \<and> map_of s0 n = None \<and> map_of k0 key = None \<and>
          fold_keys stem dflt keys (AList.update n key s0, AList.update key n k0) = Inr r)"
proof (cases "name_fold stem key dflt")
  case (Inl e)
  then show ?thesis by simp
next
  case n: (Inr n)
  show ?thesis
  proof (cases "map_of s0 n = None")
    case True
    show ?thesis by (cases "map_of k0 key = None") (simp_all add: n True)
  next
    case False
    then show ?thesis by (simp add: n)
  qed
qed

lemma map_of_update_other: "n' \<noteq> n \<Longrightarrow> map_of (AList.update n v al) n' = map_of al n'"
  by (simp add: update_conv')

lemma map_of_update_same: "map_of (AList.update n v al) n = Some v"
  by (simp add: update_conv')

lemma fold_keys_inverse:
  "fold_keys stem dflt keys (s0, k0) = Inr (s, k) \<Longrightarrow>
   (\<forall>n key. map_of s0 n = Some key \<longleftrightarrow> map_of k0 key = Some n) \<Longrightarrow>
   (\<forall>n key. map_of s n = Some key \<longleftrightarrow> map_of k key = Some n)"
proof (induction keys arbitrary: s0 k0)
  case Nil
  then show ?case by simp
next
  case (Cons key keys)
  from Cons.prems(1) obtain n where n: "name_fold stem key dflt = Inr n"
    and sn: "map_of s0 n = None" and kk: "map_of k0 key = None"
    and rest: "fold_keys stem dflt keys (AList.update n key s0, AList.update key n k0) = Inr (s, k)"
    unfolding fold_keys_Cons_Inr by blast
  have "\<forall>n' key'. map_of (AList.update n key s0) n' = Some key' \<longleftrightarrow>
                  map_of (AList.update key n k0) key' = Some n'"
  proof (intro allI)
    fix n' key'
    show "map_of (AList.update n key s0) n' = Some key' \<longleftrightarrow>
          map_of (AList.update key n k0) key' = Some n'"
    proof (cases "n' = n")
      case n_eq: True
      show ?thesis
      proof (cases "key' = key")
        case True
        with n_eq show ?thesis by (simp add: map_of_update_same)
      next
        case False
        have "map_of k0 key' \<noteq> Some n"
        proof
          assume "map_of k0 key' = Some n"
          with Cons.prems(2) have "map_of s0 n = Some key'" by blast
          with sn show False by simp
        qed
        with False n_eq show ?thesis
          by (simp add: map_of_update_same map_of_update_other)
      qed
    next
      case n_ne: False
      show ?thesis
      proof (cases "key' = key")
        case True
        have "map_of s0 n' \<noteq> Some key"
        proof
          assume "map_of s0 n' = Some key"
          with Cons.prems(2) have "map_of k0 key = Some n'" by blast
          with kk show False by simp
        qed
        with True n_ne show ?thesis
          by (simp add: map_of_update_same map_of_update_other) 
      next
        case False
        have e1: "map_of (AList.update n key s0) n' = map_of s0 n'"
          using n_ne by (rule map_of_update_other)
        have e2: "map_of (AList.update key n k0) key' = map_of k0 key'"
          using False by (rule map_of_update_other)
        show ?thesis unfolding e1 e2 using Cons.prems(2) by blast
      qed
    qed
  qed
  from Cons.IH [OF rest this] show ?case .
qed

lemma fold_keys_mono:
  "fold_keys stem dflt keys (s0, k0) = Inr (s, k) \<Longrightarrow>
   (\<forall>n key. map_of s0 n = Some key \<longrightarrow> map_of s n = Some key) \<and>
   (\<forall>key n. map_of k0 key = Some n \<longrightarrow> map_of k key = Some n)"
proof (induction keys arbitrary: s0 k0)
  case Nil
  then show ?case by simp
next
  case (Cons key keys)
  from Cons.prems(1) obtain n where n: "name_fold stem key dflt = Inr n"
    and sn: "map_of s0 n = None" and kk: "map_of k0 key = None"
    and rest: "fold_keys stem dflt keys (AList.update n key s0, AList.update key n k0) = Inr (s, k)"
    unfolding fold_keys_Cons_Inr by blast
  note ih = Cons.IH [OF rest]
  show ?case
  proof (intro conjI allI impI)
    fix n' key' assume a: "map_of s0 n' = Some key'"
    with sn have "n' \<noteq> n" by auto
    with a have "map_of (AList.update n key s0) n' = Some key'"
      by (simp add: map_of_update_other)
    with ih show "map_of s n' = Some key'" by blast
  next
    fix key' n' assume a: "map_of k0 key' = Some n'"
    with kk have "key' \<noteq> key" by auto
    with a have "map_of (AList.update key n k0) key' = Some n'"
      by (simp add: map_of_update_other)
    with ih show "map_of k key' = Some n'" by blast
  qed
qed

lemma dom_map_of_update: "dom (map_of (AList.update x y al)) = insert x (dom (map_of al))"
  by (simp add: update_conv')

lemma fold_keys_names:
  "fold_keys stem dflt keys (s0, k0) = Inr (s, k) \<Longrightarrow>
   dom (map_of k) = dom (map_of k0) \<union> set keys \<and>
   (\<forall>key\<in>set keys. \<exists>n. name_fold stem key dflt = Inr n \<and> map_of k key = Some n) \<and>
   distinct keys \<and> set keys \<inter> dom (map_of k0) = {}"
proof (induction keys arbitrary: s0 k0)
  case Nil
  then show ?case by simp
next
  case (Cons key keys)
  from Cons.prems(1) obtain n where n: "name_fold stem key dflt = Inr n"
    and sn: "map_of s0 n = None" and kk: "map_of k0 key = None"
    and rest: "fold_keys stem dflt keys (AList.update n key s0, AList.update key n k0) = Inr (s, k)"
    unfolding fold_keys_Cons_Inr by blast
  note ih = Cons.IH [OF rest, unfolded dom_map_of_update]
  note i1 = ih [THEN conjunct1]
  note i3 = ih [THEN conjunct2, THEN conjunct1]
  note i4 = ih [THEN conjunct2, THEN conjunct2, THEN conjunct1]
  note i5 = ih [THEN conjunct2, THEN conjunct2, THEN conjunct2]
  have here: "map_of k key = Some n"
    by (rule fold_keys_mono [OF rest, THEN conjunct2, rule_format, OF map_of_update_same])
  have d1: "dom (map_of k) = dom (map_of k0) \<union> set (key # keys)"
    unfolding i1 by simp
  have d3: "\<forall>key'\<in>set (key # keys). \<exists>n. name_fold stem key' dflt = Inr n \<and> map_of k key' = Some n"
    using i3 n here by simp
  have nk: "key \<notin> set keys" using i5 by blast
  then have d4: "distinct (key # keys)"
    using i4 by simp
  have "key \<notin> dom (map_of k0)" using kk by (simp add: domIff)
  then have d5: "set (key # keys) \<inter> dom (map_of k0) = {}"
    using i5 by simp
  show ?case
    apply (intro conjI)
       apply (rule d1)
      apply (rule d3)
     apply (rule d4)
    apply (rule d5)
    done
qed


lemma fold_keys_collision:
  assumes "k1 \<in> set keys" "k2 \<in> set keys" "k1 \<noteq> k2"
    and "name_fold stem k1 dflt = name_fold stem k2 dflt"
  shows "\<exists>e. fold_keys stem dflt keys ([], []) = Inl e"
proof (cases "fold_keys stem dflt keys ([], [])")
  case (Inl e)
  then show ?thesis by blast
next
  case (Inr r)
  obtain s k where r: "r = (s, k)" by (cases r)
  note ok = Inr [unfolded r]
  note all = fold_keys_names [OF ok, THEN conjunct2, THEN conjunct1]
  from bspec [OF all assms(1)] obtain n1 where
    f1: "name_fold stem k1 dflt = Inr n1" and m1: "map_of k k1 = Some n1" by blast
  from bspec [OF all assms(2)] obtain n2 where
    f2: "name_fold stem k2 dflt = Inr n2" and m2: "map_of k k2 = Some n2" by blast
  from f1 f2 assms(4) have "n2 = n1" by simp
  with m2 have m2': "map_of k k2 = Some n1" by simp
  have inv: "\<forall>n key. map_of s n = Some key \<longleftrightarrow> map_of k key = Some n"
    by (rule fold_keys_inverse [OF ok]) simp
  from inv [rule_format, of n1 k1] m1 have "map_of s n1 = Some k1" by simp
  moreover from inv [rule_format, of n1 k2] m2' have "map_of s n1 = Some k2" by simp
  ultimately show ?thesis using assms(3) by simp
qed

lemma fold_keys_not_distinct:
  assumes "\<not> distinct keys"
  shows "\<exists>e. fold_keys stem dflt keys ([], []) = Inl e"
proof (cases "fold_keys stem dflt keys ([], [])")
  case (Inl e)
  then show ?thesis by blast
next
  case (Inr r)
  obtain s k where r: "r = (s, k)" by (cases r)
  note ok = Inr [unfolded r]
  from fold_keys_names [OF ok, THEN conjunct2, THEN conjunct2, THEN conjunct1] assms
  show ?thesis by simp
qed


lemma fold_keys_bijection:
  assumes ok: "fold_keys stem dflt keys ([], []) = Inr (texture_outs, texture_outs_inv)"
  shows "(\<forall>key n. map_of texture_outs_inv key = Some n \<longleftrightarrow> map_of texture_outs n = Some key) \<and>
      inj_on (map_of texture_outs_inv) (set keys) \<and>
      inj_on (map_of texture_outs) (dom (map_of texture_outs)) \<and>
      dom (map_of texture_outs_inv) = set keys \<and>
      (\<forall>key\<in>set keys. \<exists>n. name_fold stem key dflt = Inr n \<and> map_of texture_outs_inv key = Some n) \<and>
      distinct keys"
proof -
  have inv: "\<forall>n key. map_of texture_outs n = Some key \<longleftrightarrow> map_of texture_outs_inv key = Some n"
    by (rule fold_keys_inverse [OF ok]) simp
  note nm = fold_keys_names [OF ok]
  have dm: "dom (map_of texture_outs_inv) = set keys"
    using nm [THEN conjunct1] by simp
  note all = nm [THEN conjunct2, THEN conjunct1]
  note dist = nm [THEN conjunct2, THEN conjunct2, THEN conjunct1]
  have c1: "\<forall>key n. map_of texture_outs_inv key = Some n \<longleftrightarrow> map_of texture_outs n = Some key"
  proof (intro allI)
    fix key n
    show "map_of texture_outs_inv key = Some n \<longleftrightarrow> map_of texture_outs n = Some key"
      using inv [rule_format, of n key] by simp
  qed
  have c2: "inj_on (map_of texture_outs_inv) (set keys)"
  proof (rule inj_onI)
    fix x y assume x: "x \<in> set keys" and y: "y \<in> set keys"
      and e: "map_of texture_outs_inv x = map_of texture_outs_inv y"
    from bspec [OF all x] obtain n where n: "map_of texture_outs_inv x = Some n" by blast
    with e have "map_of texture_outs_inv y = Some n" by simp
    with inv [rule_format, of n y] have "map_of texture_outs n = Some y" by simp
    moreover from n inv [rule_format, of n x] have "map_of texture_outs n = Some x" by simp
    ultimately show "x = y" by simp
  qed
  have c3: "inj_on (map_of texture_outs) (dom (map_of texture_outs))"
  proof (rule inj_onI)
    fix x y assume x: "x \<in> dom (map_of texture_outs)"
      and e: "map_of texture_outs x = map_of texture_outs y"
    from x obtain key where key: "map_of texture_outs x = Some key" by blast
    with e have "map_of texture_outs y = Some key" by simp
    with inv [rule_format, of y key] have "map_of texture_outs_inv key = Some y" by simp
    moreover from key inv [rule_format, of x key] have "map_of texture_outs_inv key = Some x" by simp
    ultimately show "x = y" by simp
  qed
  show ?thesis
    apply (intro conjI)
         apply (rule c1)
        apply (rule c2)
       apply (rule c3)
      apply (rule dm)
     apply (rule all)
    apply (rule dist)
    done
qed

lemma container_slots:
  assumes "DXSpec_TextureSpecContainer_init stem db = Inr c"
  shows "fold_keys stem ''$DEFAULT_DIFFUSE'' (map fst (s_diffuse (key2list db))) ([], [])
           = Inr (s_diffuse (out_str2key c), s_diffuse (key2str c)) \<and>
         fold_keys stem ''$DEFAULT_NORMAL'' (map fst (s_normal (key2list db))) ([], [])
           = Inr (s_normal (out_str2key c), s_normal (key2str c)) \<and>
         fold_keys stem ''$DEFAULT_ORM'' (map fst (s_orm (key2list db))) ([], [])
           = Inr (s_orm (out_str2key c), s_orm (key2str c)) \<and>
         fold_keys stem ''$DEFAULT_EMISSIVE'' (map fst (s_emissive (key2list db))) ([], [])
           = Inr (s_emissive (out_str2key c), s_emissive (key2str c))"
  using assms unfolding DXSpec_TextureSpecContainer_init_def Let_def
  by (cases "fold_keys stem ''$DEFAULT_DIFFUSE'' (map fst (s_diffuse (key2list db))) ([], [])";
      cases "fold_keys stem ''$DEFAULT_NORMAL'' (map fst (s_normal (key2list db))) ([], [])";
      cases "fold_keys stem ''$DEFAULT_ORM'' (map fst (s_orm (key2list db))) ([], [])";
      cases "fold_keys stem ''$DEFAULT_EMISSIVE'' (map fst (s_emissive (key2list db))) ([], [])")
     auto


text \<open>
  C7. The loop of \<^verbatim>\<open>DXSpec_TextureSpecContainer.__init__\<close> over the keys of a slot kind, started
  with empty maps. When it completes, the map from keys to names and the map from names
  to keys are inverse to each other and injective, every key of the slot has the name
  that \<^verbatim>\<open>name_fold\<close> gives it, and no key occurs twice. When a key occurs twice, or two
  different keys fold to one name, the loop raises. A step whose name is already in the
  map of names raises \<^verbatim>\<open>Outname already exists\<close>, a step whose key is already in the map of
  keys raises \<^verbatim>\<open>Outname inverse already exists\<close>, and a loop that completes has kept every
  entry that the maps held before. The container runs this loop for each of the four
  slot kinds.
\<close>

theorem output_names_bijection:
  "(fold_keys stem dflt keys ([], []) = Inr (texture_outs, texture_outs_inv) \<longrightarrow>
      (\<forall>key n. map_of texture_outs_inv key = Some n \<longleftrightarrow> map_of texture_outs n = Some key) \<and>
      inj_on (map_of texture_outs_inv) (set keys) \<and>
      inj_on (map_of texture_outs) (dom (map_of texture_outs)) \<and>
      dom (map_of texture_outs_inv) = set keys \<and>
      (\<forall>key\<in>set keys. \<exists>n. name_fold stem key dflt = Inr n \<and> map_of texture_outs_inv key = Some n) \<and>
      distinct keys) \<and>
   (\<not> distinct keys \<or>
    (\<exists>k1\<in>set keys. \<exists>k2\<in>set keys. k1 \<noteq> k2 \<and> name_fold stem k1 dflt = name_fold stem k2 dflt) \<longrightarrow>
      (\<exists>e. fold_keys stem dflt keys ([], []) = Inl e)) \<and>
   (name_fold stem key dflt = Inr n \<and> map_of s0 n \<noteq> None \<longrightarrow>
      fold_keys stem dflt (key # keys) (s0, k0) = Inl OutnameExists) \<and>
   (name_fold stem key dflt = Inr n \<and> map_of s0 n = None \<and> map_of k0 key \<noteq> None \<longrightarrow>
      fold_keys stem dflt (key # keys) (s0, k0) = Inl OutnameInverseExists) \<and>
   (fold_keys stem dflt keys (s0, k0) = Inr (s, k) \<longrightarrow>
      (\<forall>n key. map_of s0 n = Some key \<longrightarrow> map_of s n = Some key) \<and>
      (\<forall>key n. map_of k0 key = Some n \<longrightarrow> map_of k key = Some n)) \<and>
   (DXSpec_TextureSpecContainer_init stem db = Inr c \<longrightarrow>
      fold_keys stem ''$DEFAULT_DIFFUSE'' (map fst (s_diffuse (key2list db))) ([], [])
        = Inr (s_diffuse (out_str2key c), s_diffuse (key2str c)) \<and>
      fold_keys stem ''$DEFAULT_NORMAL'' (map fst (s_normal (key2list db))) ([], [])
        = Inr (s_normal (out_str2key c), s_normal (key2str c)) \<and>
      fold_keys stem ''$DEFAULT_ORM'' (map fst (s_orm (key2list db))) ([], [])
        = Inr (s_orm (out_str2key c), s_orm (key2str c)) \<and>
      fold_keys stem ''$DEFAULT_EMISSIVE'' (map fst (s_emissive (key2list db))) ([], [])
        = Inr (s_emissive (out_str2key c), s_emissive (key2str c)))"
proof (intro conjI)
  show "fold_keys stem dflt keys ([], []) = Inr (texture_outs, texture_outs_inv) \<longrightarrow>
      (\<forall>key n. map_of texture_outs_inv key = Some n \<longleftrightarrow> map_of texture_outs n = Some key) \<and>
      inj_on (map_of texture_outs_inv) (set keys) \<and>
      inj_on (map_of texture_outs) (dom (map_of texture_outs)) \<and>
      dom (map_of texture_outs_inv) = set keys \<and>
      (\<forall>key\<in>set keys. \<exists>n. name_fold stem key dflt = Inr n \<and> map_of texture_outs_inv key = Some n) \<and>
      distinct keys"
    using fold_keys_bijection by (rule impI)
next
  show "\<not> distinct keys \<or>
    (\<exists>k1\<in>set keys. \<exists>k2\<in>set keys. k1 \<noteq> k2 \<and> name_fold stem k1 dflt = name_fold stem k2 dflt) \<longrightarrow>
      (\<exists>e. fold_keys stem dflt keys ([], []) = Inl e)"
  proof
    assume "\<not> distinct keys \<or>
      (\<exists>k1\<in>set keys. \<exists>k2\<in>set keys. k1 \<noteq> k2 \<and> name_fold stem k1 dflt = name_fold stem k2 dflt)"
    then show "\<exists>e. fold_keys stem dflt keys ([], []) = Inl e"
    proof
      assume "\<not> distinct keys"
      then show ?thesis by (rule fold_keys_not_distinct)
    next
      assume "\<exists>k1\<in>set keys. \<exists>k2\<in>set keys. k1 \<noteq> k2 \<and> name_fold stem k1 dflt = name_fold stem k2 dflt"
      then obtain k1 k2 where "k1 \<in> set keys" "k2 \<in> set keys" "k1 \<noteq> k2"
        "name_fold stem k1 dflt = name_fold stem k2 dflt" by blast
      then show ?thesis by (rule fold_keys_collision)
    qed
  qed
next
  show "name_fold stem key dflt = Inr n \<and> map_of s0 n \<noteq> None \<longrightarrow>
      fold_keys stem dflt (key # keys) (s0, k0) = Inl OutnameExists"
    by simp
next
  show "name_fold stem key dflt = Inr n \<and> map_of s0 n = None \<and> map_of k0 key \<noteq> None \<longrightarrow>
      fold_keys stem dflt (key # keys) (s0, k0) = Inl OutnameInverseExists"
    by simp
next
  show "fold_keys stem dflt keys (s0, k0) = Inr (s, k) \<longrightarrow>
      (\<forall>n key. map_of s0 n = Some key \<longrightarrow> map_of s n = Some key) \<and>
      (\<forall>key n. map_of k0 key = Some n \<longrightarrow> map_of k key = Some n)"
    using fold_keys_mono by (rule impI)
next
  show "DXSpec_TextureSpecContainer_init stem db = Inr c \<longrightarrow>
      fold_keys stem ''$DEFAULT_DIFFUSE'' (map fst (s_diffuse (key2list db))) ([], [])
        = Inr (s_diffuse (out_str2key c), s_diffuse (key2str c)) \<and>
      fold_keys stem ''$DEFAULT_NORMAL'' (map fst (s_normal (key2list db))) ([], [])
        = Inr (s_normal (out_str2key c), s_normal (key2str c)) \<and>
      fold_keys stem ''$DEFAULT_ORM'' (map fst (s_orm (key2list db))) ([], [])
        = Inr (s_orm (out_str2key c), s_orm (key2str c)) \<and>
      fold_keys stem ''$DEFAULT_EMISSIVE'' (map fst (s_emissive (key2list db))) ([], [])
        = Inr (s_emissive (out_str2key c), s_emissive (key2str c))"
    using container_slots by (rule impI)
qed

lemma name_fold_wall: "name_fold posix_stem example_key_wall ''$DEFAULT_DIFFUSE'' = Inr ''wall.dds''"
  by (simp add: name_fold_def example_key_wall_def posix_stem_def replace_backslash_def)

lemma name_fold_wall_512: "name_fold posix_stem example_key_wall_512 ''$DEFAULT_DIFFUSE'' = Inr ''wall.dds''"
  by (simp add: name_fold_def example_key_wall_512_def posix_stem_def replace_backslash_def)

lemma name_fold_white: "name_fold posix_stem example_key_white ''$DEFAULT_DIFFUSE'' = Inr ''$DEFAULT_DIFFUSE''"
  by (simp add: name_fold_def example_key_white_def)

lemma example_keys_distinct:
  "example_key_wall \<noteq> example_key_white" "example_key_wall \<noteq> example_key_wall_512"
  by (simp_all add: example_key_wall_def example_key_white_def example_key_wall_512_def)

lemma example_fold:
  "fold_keys posix_stem ''$DEFAULT_DIFFUSE'' [example_key_wall, example_key_white] ([], [])
     = Inr ([(''wall.dds'', example_key_wall), (''$DEFAULT_DIFFUSE'', example_key_white)],
            [(example_key_wall, ''wall.dds''), (example_key_white, ''$DEFAULT_DIFFUSE'')])"
  using example_keys_distinct by (simp add: name_fold_wall name_fold_white)

text \<open>
  Two keys that fold to different names give two maps that are inverse to each other;
  the same texture at two resolutions gives two keys that fold to one name, and the loop
  raises.
\<close>

theorem output_names_bijection_witness:
  "fold_keys posix_stem ''$DEFAULT_DIFFUSE'' [example_key_wall, example_key_white] ([], [])
     = Inr ([(''wall.dds'', example_key_wall), (''$DEFAULT_DIFFUSE'', example_key_white)],
            [(example_key_wall, ''wall.dds''), (example_key_white, ''$DEFAULT_DIFFUSE'')]) \<and>
   inj_on (map_of [(example_key_wall, ''wall.dds''), (example_key_white, ''$DEFAULT_DIFFUSE'')])
     (set [example_key_wall, example_key_white]) \<and>
   example_key_wall \<noteq> example_key_wall_512 \<and>
   name_fold posix_stem example_key_wall ''$DEFAULT_DIFFUSE''
     = name_fold posix_stem example_key_wall_512 ''$DEFAULT_DIFFUSE'' \<and>
   fold_keys posix_stem ''$DEFAULT_DIFFUSE'' [example_key_wall, example_key_wall_512] ([], [])
     = Inl OutnameExists"
proof -
  note t = output_names_bijection [where stem = posix_stem and dflt = "''$DEFAULT_DIFFUSE''"
      and keys = "[example_key_wall, example_key_white]"
      and texture_outs = "[(''wall.dds'', example_key_wall), (''$DEFAULT_DIFFUSE'', example_key_white)]"
      and texture_outs_inv = "[(example_key_wall, ''wall.dds''), (example_key_white, ''$DEFAULT_DIFFUSE'')]"]
  have inj: "inj_on (map_of [(example_key_wall, ''wall.dds''), (example_key_white, ''$DEFAULT_DIFFUSE'')])
     (set [example_key_wall, example_key_white])"
    using t [THEN conjunct1, rule_format, OF example_fold] by blast
  have coll: "fold_keys posix_stem ''$DEFAULT_DIFFUSE'' [example_key_wall, example_key_wall_512] ([], [])
     = Inl OutnameExists"
    by (simp add: name_fold_wall name_fold_wall_512 del: split_paired_Ex)
  show ?thesis
    apply (intro conjI)
        apply (rule example_fold)
       apply (rule inj)
      apply (rule example_keys_distinct(2))
     apply (simp only: name_fold_wall name_fold_wall_512)
    apply (rule coll)
    done
qed


section \<open>Properties of the material table\<close>

lemma name_key_pairs_Nil [simp]: "name_key_pairs [] = []"
  by (simp add: name_key_pairs_def)

lemma name_key_pairs_Cons:
  "name_key_pairs ((k, vs) # kl) = map (\<lambda>v. (v, k)) vs @ name_key_pairs kl"
  by (simp add: name_key_pairs_def)

lemma names_of_pairs_Cons:
  "map fst (name_key_pairs ((k, vs) # kl)) = vs @ map fst (name_key_pairs kl)"
  by (simp add: name_key_pairs_Cons comp_def)

lemma set_pairs_update:
  fixes kl :: "('k \<times> 'v list) list"
  shows "set (name_key_pairs
          (AList.update key ((case map_of kl key of None \<Rightarrow> [] | Some vs \<Rightarrow> vs) @ [n]) kl))
   = insert (n, key) (set (name_key_pairs kl))"
proof (induction kl)
  case Nil
  then show ?case by (simp add: name_key_pairs_Cons)
next
  case (Cons kv kl)
  obtain k' vs' where kv: "kv = (k', vs')" by (cases kv)
  show ?case
  proof (cases "k' = key")
    case True
    then show ?thesis unfolding kv by (auto simp add: name_key_pairs_Cons)
  next
    case False
    then show ?thesis unfolding kv using Cons.IH by (auto simp add: name_key_pairs_Cons)
  qed
qed

lemma names_update:
  fixes kl :: "('k \<times> 'v list) list"
  shows "n \<notin> set (map fst (name_key_pairs kl)) \<Longrightarrow> distinct (map fst (name_key_pairs kl)) \<Longrightarrow>
   distinct (map fst (name_key_pairs
          (AList.update key ((case map_of kl key of None \<Rightarrow> [] | Some vs \<Rightarrow> vs) @ [n]) kl)))"
proof (induction kl)
  case Nil
  then show ?case by (simp add: names_of_pairs_Cons)
next
  case (Cons kv kl)
  obtain k' vs' where kv: "kv = (k', vs')" by (cases kv)
  have s: "set (map fst (name_key_pairs
          (AList.update key ((case map_of kl key of None \<Rightarrow> [] | Some vs \<Rightarrow> vs) @ [n]) kl)))
       = insert n (set (map fst (name_key_pairs kl)))"
    using set_pairs_update [of key kl n] by (simp only: set_map) simp
  show ?case
  proof (cases "k' = key")
    case True
    then show ?thesis using Cons.prems unfolding kv
      by (auto simp add: names_of_pairs_Cons)
  next
    case False
    from Cons.prems have "n \<notin> set (map fst (name_key_pairs kl))"
      and "distinct (map fst (name_key_pairs kl))"
      unfolding kv by (auto simp add: names_of_pairs_Cons)
    from Cons.IH [OF this] False Cons.prems s show ?thesis unfolding kv
      by (auto simp add: names_of_pairs_Cons)
  qed
qed

lemma pair_key_in_keys:
  fixes kl :: "('k \<times> 'v list) list"
  shows "(n, key) \<in> set (name_key_pairs kl) \<Longrightarrow> key \<in> set (map fst kl)"
  by (induction kl) (auto simp add: name_key_pairs_def)

lemma foldl_update_map_of:
  "map_of (foldl (\<lambda>d kv. AList.update (fst kv) (snd kv) d) d0 kvs) = map_of d0 ++ map_of (rev kvs)"
proof (induction kvs arbitrary: d0)
  case Nil
  then show ?case by simp
next
  case (Cons kv kvs)
  show ?case
    by (simp add: Cons.IH update_conv' map_add_def fun_eq_iff split: option.splits)
qed

lemma map_of_dict_of: "distinct (map fst kvs) \<Longrightarrow> map_of (dict_of kvs) = map_of kvs"
proof -
  assume d: "distinct (map fst kvs)"
  have "map_of (dict_of kvs) = map_of (rev kvs)"
    by (simp add: dict_of_def foldl_update_map_of)
  also have "\<dots> = map_of kvs"
    using d by (intro map_of_inject_set [THEN iffD2]) (simp_all add: distinct_rev rev_map [symmetric])
  finally show ?thesis .
qed


lemma key2list_append_Inr:
  "key2list_append kl key n = Inr kl' \<Longrightarrow>
     kl' = AList.update (canon_key key)
             ((case map_of kl (canon_key key) of None \<Rightarrow> [] | Some vs \<Rightarrow> vs) @ [n]) kl"
  by (simp add: key2list_append_def split: if_splits)

lemma keys_step_diffuse:
  assumes "keys_step k2l item = Inr k2l'"
  shows "\<exists>key. get_diffuse_texture_key (snd item) = Inr key \<and>
           s_diffuse k2l' =
             AList.update (canon_key key)
               ((case map_of (s_diffuse k2l) (canon_key key) of None \<Rightarrow> [] | Some vs \<Rightarrow> vs)
                  @ [fst item]) (s_diffuse k2l)"
proof -
  obtain n m where item: "item = (n, m)" by (cases item)
  from assms obtain key d where k: "get_diffuse_texture_key m = Inr key"
    and d: "key2list_append (s_diffuse k2l) key n = Inr d"
    and r: "s_diffuse k2l' = d"
    unfolding keys_step_def item prod.case ebind_Inr_iff by force
  from key2list_append_Inr [OF d] k r show ?thesis by (simp add: item)
qed

lemma keys_loop_diffuse:
  "keys_loop k2l items = Inr k2l' \<Longrightarrow> distinct (map fst items) \<Longrightarrow>
   distinct (map fst (name_key_pairs (s_diffuse k2l))) \<Longrightarrow>
   set (map fst items) \<inter> set (map fst (name_key_pairs (s_diffuse k2l))) = {} \<Longrightarrow>
   distinct (map fst (name_key_pairs (s_diffuse k2l'))) \<and>
   set (name_key_pairs (s_diffuse k2l)) \<subseteq> set (name_key_pairs (s_diffuse k2l')) \<and>
   (\<forall>item\<in>set items. \<exists>key. get_diffuse_texture_key (snd item) = Inr key \<and>
        (fst item, canon_key key) \<in> set (name_key_pairs (s_diffuse k2l')))"
proof (induction items arbitrary: k2l)
  case Nil
  then show ?case by simp
next
  case (Cons item items)
  from Cons.prems(1) obtain k1 where step: "keys_step k2l item = Inr k1"
    and rest: "keys_loop k1 items = Inr k2l'"
    by (auto simp add: ebind_Inr_iff)
  from keys_step_diffuse [OF step] obtain key where
    key: "get_diffuse_texture_key (snd item) = Inr key"
    and k1: "s_diffuse k1 = AList.update (canon_key key)
               ((case map_of (s_diffuse k2l) (canon_key key) of None \<Rightarrow> [] | Some vs \<Rightarrow> vs)
                  @ [fst item])
               (s_diffuse k2l)"
    by blast
  have ps: "set (name_key_pairs (s_diffuse k1))
              = insert (fst item, canon_key key) (set (name_key_pairs (s_diffuse k2l)))"
    unfolding k1 by (rule set_pairs_update)
  then have ns: "set (map fst (name_key_pairs (s_diffuse k1)))
              = insert (fst item) (set (map fst (name_key_pairs (s_diffuse k2l))))"
    by simp
  from Cons.prems(4) have fresh: "fst item \<notin> set (map fst (name_key_pairs (s_diffuse k2l)))"
    by auto
  have d1: "distinct (map fst (name_key_pairs (s_diffuse k1)))"
    unfolding k1 by (rule names_update [OF fresh Cons.prems(3)])
  from Cons.prems(2) have d2: "distinct (map fst items)" and nf: "fst item \<notin> set (map fst items)"
    by simp_all
  have dj: "set (map fst items) \<inter> set (map fst (name_key_pairs (s_diffuse k1))) = {}"
    unfolding ns using Cons.prems(4) nf by auto
  note ih = Cons.IH [OF rest d2 d1 dj]
  note ih1 = ih [THEN conjunct1]
  note ih2 = ih [THEN conjunct2, THEN conjunct1]
  note ih3 = ih [THEN conjunct2, THEN conjunct2]
  have a: "set (name_key_pairs (s_diffuse k2l)) \<subseteq> set (name_key_pairs (s_diffuse k2l'))"
    using ih2 ps by blast
  have here: "(fst item, canon_key key) \<in> set (name_key_pairs (s_diffuse k2l'))"
    using ih2 ps by blast
  have b: "\<forall>item\<in>set (item # items). \<exists>key. get_diffuse_texture_key (snd item) = Inr key \<and>
        (fst item, canon_key key) \<in> set (name_key_pairs (s_diffuse k2l'))"
    using ih3 key here by (simp del: split_paired_Ex split_paired_All)
  show ?case
    apply (intro conjI)
      apply (rule ih1)
     apply (rule a)
    apply (rule b)
    done
qed


lemma mat2texture_lookup:
  "mat2texture tex_outs items = Inr r \<Longrightarrow> map_of items n = Some key \<Longrightarrow>
     \<exists>name. map_of tex_outs key = Some name \<and> map_of r n = Some name"
proof (induction items arbitrary: r)
  case Nil
  then show ?case by simp
next
  case (Cons kv items)
  obtain k v where kv: "kv = (k, v)" by (cases kv)
  from Cons.prems(1) obtain nm rest where nm: "map_of tex_outs v = Some nm"
    and rest: "mat2texture tex_outs items = Inr rest" and r: "r = (k, nm) # rest"
    unfolding kv by (auto simp add: ebind_Inr_iff split: option.splits)
  show ?case
  proof (cases "n = k")
    case True
    with Cons.prems(2) kv have "key = v" by simp
    with True nm r show ?thesis by simp
  next
    case False
    with Cons.prems(2) kv have "map_of items n = Some key" by simp
    from Cons.IH [OF rest this] False r show ?thesis by simp
  qed
qed

lemma name_fold_sources:
  "fst k1 = fst k2 \<Longrightarrow> name_fold stem k1 dflt = name_fold stem k2 dflt"
  by (simp add: name_fold_def)

lemma keys_container_diffuse:
  assumes ok: "DXSpec_TextureKeysContainer_init db = Inr kc"
    and d: "distinct (map fst db)" and i: "(n, m) \<in> set db"
  shows "\<exists>key. get_diffuse_texture_key m = Inr key \<and>
           map_of (s_diffuse (str2key kc)) n = Some (canon_key key) \<and>
           canon_key key \<in> set (map fst (s_diffuse (key2list kc)))"
proof -
  from ok obtain k2l where
    loop: "keys_loop \<lparr>s_diffuse = [], s_normal = [], s_orm = [], s_emissive = []\<rparr> db = Inr k2l"
    and k: "key2list kc = k2l"
    and s: "s_diffuse (str2key kc) = invert_key2list (s_diffuse k2l)"
    unfolding DXSpec_TextureKeysContainer_init_def ebind_Inr_iff by force
  have inv: "distinct (map fst (name_key_pairs (s_diffuse k2l))) \<and>
     set (name_key_pairs []) \<subseteq> set (name_key_pairs (s_diffuse k2l)) \<and>
     (\<forall>item\<in>set db. \<exists>key. get_diffuse_texture_key (snd item) = Inr key \<and>
        (fst item, canon_key key) \<in> set (name_key_pairs (s_diffuse k2l)))"
    using keys_loop_diffuse [OF loop d] by simp
  from inv [THEN conjunct2, THEN conjunct2, THEN bspec, OF i]
  obtain key where key: "get_diffuse_texture_key m = Inr key"
    and mem: "(n, canon_key key) \<in> set (name_key_pairs (s_diffuse k2l))" by auto
  have "map_of (name_key_pairs (s_diffuse k2l)) n = Some (canon_key key)"
    using inv [THEN conjunct1] mem by simp
  then have "map_of (s_diffuse (str2key kc)) n = Some (canon_key key)"
    unfolding s invert_key2list_def name_key_pairs_def [symmetric]
    by (simp add: map_of_dict_of [OF inv [THEN conjunct1]])
  moreover have "canon_key key \<in> set (map fst (s_diffuse (key2list kc)))"
    unfolding k using mem by (rule pair_key_in_keys)
  ultimately show ?thesis using key by blast
qed

lemma keys_update: "set (map fst (AList.update k v al)) = insert k (set (map fst al))"
  using dom_update [of k v al] by simp

lemma keys_loop_diffuse_keys:
  "keys_loop k2l items = Inr k2l' \<Longrightarrow> k \<in> set (map fst (s_diffuse k2l')) \<Longrightarrow>
     k \<in> set (map fst (s_diffuse k2l)) \<or>
     (\<exists>item\<in>set items. \<exists>key. get_diffuse_texture_key (snd item) = Inr key \<and> k = canon_key key)"
proof (induction items arbitrary: k2l)
  case Nil
  then show ?case by simp
next
  case (Cons item items)
  from Cons.prems(1) obtain k1 where step: "keys_step k2l item = Inr k1"
    and rest: "keys_loop k1 items = Inr k2l'"
    by (auto simp add: ebind_Inr_iff)
  from keys_step_diffuse [OF step] obtain key where
    key: "get_diffuse_texture_key (snd item) = Inr key"
    and k1: "s_diffuse k1 = AList.update (canon_key key)
               ((case map_of (s_diffuse k2l) (canon_key key) of None \<Rightarrow> [] | Some vs \<Rightarrow> vs)
                  @ [fst item])
               (s_diffuse k2l)"
    by blast
  from Cons.IH [OF rest Cons.prems(2)]
  consider (old) "k \<in> set (map fst (s_diffuse k1))"
    | (new) "\<exists>item\<in>set items. \<exists>key. get_diffuse_texture_key (snd item) = Inr key \<and> k = canon_key key"
    by blast
  then show ?case
  proof cases
    case old
    then have "k = canon_key key \<or> k \<in> set (map fst (s_diffuse k2l))"
      unfolding k1 keys_update by simp
    then show ?thesis
    proof
      assume "k = canon_key key"
      with key have "\<exists>key. get_diffuse_texture_key (snd item) = Inr key \<and> k = canon_key key"
        by blast
      then have "\<exists>item'\<in>set (item # items).
                   \<exists>key. get_diffuse_texture_key (snd item') = Inr key \<and> k = canon_key key"
        by (simp del: split_paired_Ex split_paired_All)
      then show ?thesis by (rule disjI2)
    next
      assume "k \<in> set (map fst (s_diffuse k2l))"
      then show ?thesis by (rule disjI1)
    qed
  next
    case new
    then have "\<exists>item'\<in>set (item # items).
                 \<exists>key. get_diffuse_texture_key (snd item') = Inr key \<and> k = canon_key key"
      by (simp del: split_paired_Ex split_paired_All)
    then show ?thesis by (rule disjI2)
  qed
qed

lemma keys_container_keys:
  assumes ok: "DXSpec_TextureKeysContainer_init db = Inr kc"
    and k: "k \<in> set (map fst (s_diffuse (key2list kc)))"
  shows "\<exists>item\<in>set db. \<exists>key. get_diffuse_texture_key (snd item) = Inr key \<and> k = canon_key key"
proof -
  from ok obtain k2l where
    loop: "keys_loop \<lparr>s_diffuse = [], s_normal = [], s_orm = [], s_emissive = []\<rparr> db = Inr k2l"
    and kl: "key2list kc = k2l"
    unfolding DXSpec_TextureKeysContainer_init_def ebind_Inr_iff by force
  from keys_loop_diffuse_keys [OF loop k [unfolded kl]] show ?thesis by simp
qed

lemma fold_keys_error_kind:
  "\<forall>key\<in>set keys. \<exists>n. name_fold stem key dflt = Inr n \<Longrightarrow>
   \<forall>key n. map_of k0 key = Some n \<longrightarrow> name_fold stem key dflt = Inr n \<and> map_of s0 n \<noteq> None \<Longrightarrow>
   fold_keys stem dflt keys (s0, k0) = Inl e \<Longrightarrow> e = OutnameExists"
proof (induction keys arbitrary: s0 k0)
  case Nil
  then show ?case by simp
next
  case (Cons key keys)
  from Cons.prems(1) obtain n where n: "name_fold stem key dflt = Inr n"
    by (auto simp del: split_paired_Ex split_paired_All)
  from Cons.prems(1) have all: "\<forall>key\<in>set keys. \<exists>n. name_fold stem key dflt = Inr n"
    by (simp del: split_paired_Ex split_paired_All)
  show ?case
  proof (cases "map_of s0 n = None")
    case False
    with Cons.prems(3) n show ?thesis by simp
  next
    case True
    have kk: "map_of k0 key = None"
    proof (cases "map_of k0 key")
      case None
      then show ?thesis .
    next
      case (Some n')
      from Cons.prems(2) [rule_format, OF Some] n True show ?thesis by simp
    qed
    from Cons.prems(3) n True kk
    have rest: "fold_keys stem dflt keys (AList.update n key s0, AList.update key n k0) = Inl e"
      by simp
    have inv: "\<forall>key' n'. map_of (AList.update key n k0) key' = Some n' \<longrightarrow>
                 name_fold stem key' dflt = Inr n' \<and> map_of (AList.update n key s0) n' \<noteq> None"
    proof (intro allI impI)
      fix key' n' assume a: "map_of (AList.update key n k0) key' = Some n'"
      show "name_fold stem key' dflt = Inr n' \<and> map_of (AList.update n key s0) n' \<noteq> None"
      proof (cases "key' = key")
        case True
        with a have "n' = n" by (simp add: map_of_update_same)
        with True n show ?thesis by (simp add: map_of_update_same)
      next
        case False
        with a have "map_of k0 key' = Some n'" by (simp add: map_of_update_other)
        from Cons.prems(2) [rule_format, OF this]
        show ?thesis by (cases "n' = n") (simp_all add: map_of_update_same map_of_update_other)
      qed
    qed
    from Cons.IH [OF all inv rest] show ?thesis .
  qed
qed


lemma diffuse_key_cases:
  "get_diffuse_texture_key m = Inr key \<Longrightarrow>
     fst key = [(uri (diffuse m), swizzle (diffuse m))] \<and> snd (snd key) = resolution m"
  by (auto simp add: get_diffuse_texture_key_def DXSpec_DiffuseTexture_get_texture_key_def
        split: if_splits)

lemma canon_key_parts:
  "fst (canon_key key) = map (\<lambda>sub_key. (canon (fst sub_key), snd sub_key)) (fst key)"
  "snd (snd (canon_key key)) = canon (snd (snd key))"
  by (simp_all add: canon_key_def split: prod.splits)

lemma diffuse_key_canon:
  "uri (diffuse mA) = uri (diffuse mB) \<Longrightarrow> swizzle (diffuse mA) = swizzle (diffuse mB) \<Longrightarrow>
   canon (resolution mA) = canon (resolution mB) \<Longrightarrow>
   ebind (get_diffuse_texture_key mA) (\<lambda>k. Inr (canon_key k))
     = ebind (get_diffuse_texture_key mB) (\<lambda>k. Inr (canon_key k))"
  by (simp add: get_diffuse_texture_key_def DXSpec_DiffuseTexture_get_texture_key_def canon_key_def)

lemma name_fold_source_key:
  assumes "get_diffuse_texture_key m = Inr key" and "is_source_uri (uri (diffuse m))"
  shows "\<exists>n. name_fold stem (canon_key key) dflt = Inr n"
proof -
  from diffuse_key_cases [OF assms(1)]
  have f: "fst key = [(uri (diffuse m), swizzle (diffuse m))]" by simp
  have "fst (canon_key key) = [(canon (uri (diffuse m)), swizzle (diffuse m))]"
    by (simp add: canon_key_parts f)
  then show ?thesis
    using assms(2) by (cases "uri (diffuse m)") (simp_all add: name_fold_def)
qed

lemma spec_container_diffuse_error:
  assumes "fold_keys stem ''$DEFAULT_DIFFUSE'' (map fst (s_diffuse (key2list kc))) ([], []) = Inl e"
  shows "DXSpec_TextureSpecContainer_init stem kc = Inl e"
  using assms by (simp add: DXSpec_TextureSpecContainer_init_def)

lemma material_textures_Inr:
  assumes "material_textures stem db = Inr tbl"
  shows "\<exists>kc sc. DXSpec_TextureKeysContainer_init db = Inr kc \<and>
           DXSpec_TextureSpecContainer_init stem kc = Inr sc \<and>
           mat2texture (s_diffuse (key2str sc)) (s_diffuse (str2key kc)) = Inr (s_diffuse tbl)"
proof -
  from assms obtain kc sc where kc: "DXSpec_TextureKeysContainer_init db = Inr kc"
    and sc: "DXSpec_TextureSpecContainer_init stem kc = Inr sc"
    and t: "DXSpec_Mat2TextureContainer_init kc sc = Inr tbl"
    unfolding material_textures_def ebind_Inr_iff by blast
  from t have "mat2texture (s_diffuse (key2str sc)) (s_diffuse (str2key kc)) = Inr (s_diffuse tbl)"
    unfolding DXSpec_Mat2TextureContainer_init_def Let_def ebind_Inr_iff by force
  with kc sc show ?thesis by blast
qed

text \<open>
  C1, as the code has it. The material database is a \<^verbatim>\<open>dict\<close>: its names are hashable and
  differ as Python compares them. Two materials of the database whose diffuse slots have the same uri and
  the same swizzle. With equal resolutions their diffuse keys are equal, and a table that
  is built gives both the same diffuse file name. With unequal resolutions their diffuse
  keys are unequal, but \<^verbatim>\<open>name_fold\<close> reads only the channel sources of a key and gives both
  keys the same name: building the table raises and assigns no file names. When every
  diffuse uri of the database is \<^verbatim>\<open>None\<close> or a source path, the exception is that of the keys
  container if that one raises, and \<^verbatim>\<open>Outname already exists\<close> otherwise. Equality is that
  of Python throughout (\<^verbatim>\<open>True\<close> is \<^verbatim>\<open>1\<close>).
\<close>

theorem shared_diffuse_texture:
  assumes "material_db db"
    and "(nA, mA) \<in> set db" and "(nB, mB) \<in> set db"
    and "uri (diffuse mA) = uri (diffuse mB)" and "swizzle (diffuse mA) = swizzle (diffuse mB)"
  shows "(canon (resolution mA) = canon (resolution mB) \<longrightarrow>
            ebind (get_diffuse_texture_key mA) (\<lambda>k. Inr (canon_key k))
              = ebind (get_diffuse_texture_key mB) (\<lambda>k. Inr (canon_key k)) \<and>
            (\<forall>tbl. material_textures stem db = Inr tbl \<longrightarrow>
               (\<exists>name. map_of (s_diffuse tbl) nA = Some name \<and> map_of (s_diffuse tbl) nB = Some name))) \<and>
         (canon (resolution mA) \<noteq> canon (resolution mB) \<longrightarrow>
            (\<forall>kA kB. get_diffuse_texture_key mA = Inr kA \<and> get_diffuse_texture_key mB = Inr kB \<longrightarrow>
               canon_key kA \<noteq> canon_key kB \<and>
               name_fold stem kA ''$DEFAULT_DIFFUSE'' = name_fold stem kB ''$DEFAULT_DIFFUSE'') \<and>
            (\<exists>e. material_textures stem db = Inl e) \<and>
            (list_all (\<lambda>item. is_source_uri (uri (diffuse (snd item)))) db \<longrightarrow>
               material_textures stem db =
                 (case DXSpec_TextureKeysContainer_init db of
                    Inl e \<Rightarrow> Inl e
                  | Inr kc \<Rightarrow> Inl OutnameExists)))"
proof -
  have "map (\<lambda>item. canon (fst item)) db = map canon (map fst db)"
    by simp
  with assms(1) have "distinct (map canon (map fst db))"
    by (simp only: material_db_def)
  then have names: "distinct (map fst db)"
    by (simp only: distinct_map)
  have same: "(\<exists>name. map_of (s_diffuse tbl) nA = Some name \<and> map_of (s_diffuse tbl) nB = Some name)"
    if r: "canon (resolution mA) = canon (resolution mB)"
      and ok: "material_textures stem db = Inr tbl" for tbl
  proof -
    from material_textures_Inr [OF ok] obtain kc sc where
      kc: "DXSpec_TextureKeysContainer_init db = Inr kc"
      and sc: "DXSpec_TextureSpecContainer_init stem kc = Inr sc"
      and m2t: "mat2texture (s_diffuse (key2str sc)) (s_diffuse (str2key kc)) = Inr (s_diffuse tbl)"
      by (elim exE conjE)
    from keys_container_diffuse [OF kc names assms(2)] obtain kA where
      kA: "get_diffuse_texture_key mA = Inr kA"
      and sA: "map_of (s_diffuse (str2key kc)) nA = Some (canon_key kA)"
      by blast
    from keys_container_diffuse [OF kc names assms(3)] obtain kB where
      kB: "get_diffuse_texture_key mB = Inr kB"
      and sB: "map_of (s_diffuse (str2key kc)) nB = Some (canon_key kB)"
      by blast
    from diffuse_key_canon [OF assms(4,5) r] have e: "canon_key kB = canon_key kA"
      by (simp add: kA kB)
    from mat2texture_lookup [OF m2t sA] obtain name where
      nm: "map_of (s_diffuse (key2str sc)) (canon_key kA) = Some name"
      and tA: "map_of (s_diffuse tbl) nA = Some name"
      by blast
    from mat2texture_lookup [OF m2t sB [unfolded e]] nm have "map_of (s_diffuse tbl) nB = Some name"
      by simp
    with tA show ?thesis by blast
  qed
  have keys: "canon_key kA \<noteq> canon_key kB \<and>
              name_fold stem kA ''$DEFAULT_DIFFUSE'' = name_fold stem kB ''$DEFAULT_DIFFUSE'' \<and>
              name_fold stem (canon_key kA) ''$DEFAULT_DIFFUSE''
                = name_fold stem (canon_key kB) ''$DEFAULT_DIFFUSE''"
    if r: "canon (resolution mA) \<noteq> canon (resolution mB)"
      and kA: "get_diffuse_texture_key mA = Inr kA" and kB: "get_diffuse_texture_key mB = Inr kB"
    for kA kB
  proof -
    note cA = diffuse_key_cases [OF kA] and cB = diffuse_key_cases [OF kB]
    have "snd (snd (canon_key kA)) \<noteq> snd (snd (canon_key kB))"
      using r cA cB by (simp add: canon_key_parts)
    then have 1: "canon_key kA \<noteq> canon_key kB" by auto
    have f: "fst kA = fst kB" using cA cB assms(4,5) by simp
    then have 2: "name_fold stem kA ''$DEFAULT_DIFFUSE'' = name_fold stem kB ''$DEFAULT_DIFFUSE''"
      by (rule name_fold_sources)
    have "fst (canon_key kA) = fst (canon_key kB)"
      using f by (simp add: canon_key_parts)
    then have 3: "name_fold stem (canon_key kA) ''$DEFAULT_DIFFUSE''
                = name_fold stem (canon_key kB) ''$DEFAULT_DIFFUSE''"
      by (rule name_fold_sources)
    from 1 2 3 show ?thesis by blast
  qed
  have coll: "\<exists>e. fold_keys stem ''$DEFAULT_DIFFUSE'' (map fst (s_diffuse (key2list kc))) ([], []) = Inl e"
    if r: "canon (resolution mA) \<noteq> canon (resolution mB)"
      and kc: "DXSpec_TextureKeysContainer_init db = Inr kc" for kc
  proof -
    from keys_container_diffuse [OF kc names assms(2)] obtain kA where
      kA: "get_diffuse_texture_key mA = Inr kA"
      and inA: "canon_key kA \<in> set (map fst (s_diffuse (key2list kc)))" by blast
    from keys_container_diffuse [OF kc names assms(3)] obtain kB where
      kB: "get_diffuse_texture_key mB = Inr kB"
      and inB: "canon_key kB \<in> set (map fst (s_diffuse (key2list kc)))" by blast
    note k = keys [OF r kA kB]
    show ?thesis
      by (rule fold_keys_collision [OF inA inB k [THEN conjunct1] k [THEN conjunct2, THEN conjunct2]])
  qed
  have err: "\<exists>e. material_textures stem db = Inl e"
    if r: "canon (resolution mA) \<noteq> canon (resolution mB)"
  proof (cases "DXSpec_TextureKeysContainer_init db")
    case (Inl e)
    then show ?thesis by (simp add: material_textures_def)
  next
    case (Inr kc)
    from coll [OF r Inr] obtain e where
      "fold_keys stem ''$DEFAULT_DIFFUSE'' (map fst (s_diffuse (key2list kc))) ([], []) = Inl e"
      by blast
    from spec_container_diffuse_error [OF this] Inr show ?thesis
      by (simp add: material_textures_def)
  qed
  have exact: "material_textures stem db =
                 (case DXSpec_TextureKeysContainer_init db of
                    Inl e \<Rightarrow> Inl e
                  | Inr kc \<Rightarrow> Inl OutnameExists)"
    if r: "canon (resolution mA) \<noteq> canon (resolution mB)"
      and src: "list_all (\<lambda>item. is_source_uri (uri (diffuse (snd item)))) db"
  proof (cases "DXSpec_TextureKeysContainer_init db")
    case (Inl e)
    then show ?thesis by (simp add: material_textures_def)
  next
    case (Inr kc)
    from coll [OF r Inr] obtain e where
      e: "fold_keys stem ''$DEFAULT_DIFFUSE'' (map fst (s_diffuse (key2list kc))) ([], []) = Inl e"
      by blast
    have all: "\<forall>key\<in>set (map fst (s_diffuse (key2list kc))).
                 \<exists>n. name_fold stem key ''$DEFAULT_DIFFUSE'' = Inr n"
    proof
      fix key assume "key \<in> set (map fst (s_diffuse (key2list kc)))"
      from keys_container_keys [OF Inr this] obtain item key' where
        item: "item \<in> set db" and key': "get_diffuse_texture_key (snd item) = Inr key'"
        and key: "key = canon_key key'"
        by blast
      from src item have "is_source_uri (uri (diffuse (snd item)))"
        by (simp add: list_all_iff del: split_paired_All)
      from name_fold_source_key [OF key' this] show "\<exists>n. name_fold stem key ''$DEFAULT_DIFFUSE'' = Inr n"
        unfolding key .
    qed
    have "e = OutnameExists"
      by (rule fold_keys_error_kind [OF all _ e]) simp
    with e spec_container_diffuse_error [OF e] Inr show ?thesis
      by (simp add: material_textures_def)
  qed
  show ?thesis
  proof (intro conjI impI allI)
    assume "canon (resolution mA) = canon (resolution mB)"
    with assms(4,5)
    show "ebind (get_diffuse_texture_key mA) (\<lambda>k. Inr (canon_key k))
              = ebind (get_diffuse_texture_key mB) (\<lambda>k. Inr (canon_key k))"
      by (rule diffuse_key_canon)
  next
    fix tbl
    assume "canon (resolution mA) = canon (resolution mB)" "material_textures stem db = Inr tbl"
    then show "\<exists>name. map_of (s_diffuse tbl) nA = Some name \<and> map_of (s_diffuse tbl) nB = Some name"
      by (rule same)
  next
    fix kA kB
    assume r: "canon (resolution mA) \<noteq> canon (resolution mB)"
      and k: "get_diffuse_texture_key mA = Inr kA \<and> get_diffuse_texture_key mB = Inr kB"
    from keys [OF r k [THEN conjunct1] k [THEN conjunct2]]
    show "canon_key kA \<noteq> canon_key kB" by (rule conjunct1)
  next
    fix kA kB
    assume r: "canon (resolution mA) \<noteq> canon (resolution mB)"
      and k: "get_diffuse_texture_key mA = Inr kA \<and> get_diffuse_texture_key mB = Inr kB"
    from keys [OF r k [THEN conjunct1] k [THEN conjunct2]]
    show "name_fold stem kA ''$DEFAULT_DIFFUSE'' = name_fold stem kB ''$DEFAULT_DIFFUSE''"
      by (rule conjunct2 [THEN conjunct1])
  next
    assume "canon (resolution mA) \<noteq> canon (resolution mB)"
    then show "\<exists>e. material_textures stem db = Inl e" by (rule err)
  next
    assume "canon (resolution mA) \<noteq> canon (resolution mB)"
      "list_all (\<lambda>item. is_source_uri (uri (diffuse (snd item)))) db"
    then show "material_textures stem db =
                 (case DXSpec_TextureKeysContainer_init db of
                    Inl e \<Rightarrow> Inl e
                  | Inr kc \<Rightarrow> Inl OutnameExists)"
      by (rule exact)
  qed
qed


lemma example_A_material:
  "material_of exact_python example_src example_A []
     = Inr (example_wall_material (PStr ''A'') (PTuple [PNum (- 1), PNum (- 1)]))"
  by (simp add: material_of_def example_A_def gltf_init_defs dxspec_init_defs example_src_def
        example_wall_material_def)

lemma example_B_material:
  "material_of exact_python example_src example_B []
     = Inr (example_wall_material (PStr ''B'') (PTuple [PNum (- 1), PNum (- 1)]))"
  by (simp add: material_of_def example_B_def gltf_init_defs dxspec_init_defs example_src_def
        example_wall_material_def)

lemma example_B_material_512:
  "material_of exact_python example_src example_B [(''resolution'', PList [PNum 512, PNum 512])]
     = Inr (example_wall_material (PStr ''B'') (PTuple [PNum 512, PNum 512]))"
  by (simp add: material_of_def example_B_def gltf_init_defs dxspec_init_defs example_src_def
        example_wall_material_def)

lemma example_wall_keys:
  "get_diffuse_texture_key (example_wall_material nm res)
     = Inr ([(PPath ''textures/wall.png'', ''rgb1'')], ''BC1_UNORM_SRGB'', res)"
  "get_normal_texture_key (example_wall_material nm res) = ([(PNone, ''hh'')], ''BC5_UNORM'', res)"
  "get_orm_texture_key (example_wall_material nm res)
     = ([(PNone, ''1''), (PNone, ''1''), (PNone, ''1'')], ''BC7_UNORM'', res)"
  "get_emissive_texture_key (example_wall_material nm res) = Inr None"
  by (simp_all add: example_wall_material_def get_diffuse_texture_key_def
        DXSpec_DiffuseTexture_get_texture_key_def get_normal_texture_key_def
        DXSpec_NormalTexture_get_texture_key_def get_orm_texture_key_def
        DXSpec_OcclusionRoughnessMetalness_get_texture_key_def get_emissive_texture_key_def)

lemma example_keys_container_512:
  "DXSpec_TextureKeysContainer_init
     [(PStr ''A'', example_wall_material (PStr ''A'') (PTuple [PNum (- 1), PNum (- 1)])),
      (PStr ''B'', example_wall_material (PStr ''B'') (PTuple [PNum 512, PNum 512]))]
   = Inr \<lparr>key2list =
            \<lparr>s_diffuse = [(example_key_wall, [PStr ''A'']), (example_key_wall_512, [PStr ''B''])],
             s_normal = [(([(PNone, ''hh'')], ''BC5_UNORM'', PTuple [PNum (- 1), PNum (- 1)]), [PStr ''A'']),
                         (([(PNone, ''hh'')], ''BC5_UNORM'', PTuple [PNum 512, PNum 512]), [PStr ''B''])],
             s_orm = [(([(PNone, ''1''), (PNone, ''1''), (PNone, ''1'')], ''BC7_UNORM'',
                          PTuple [PNum (- 1), PNum (- 1)]), [PStr ''A'']),
                      (([(PNone, ''1''), (PNone, ''1''), (PNone, ''1'')], ''BC7_UNORM'',
                          PTuple [PNum 512, PNum 512]), [PStr ''B''])],
             s_emissive = []\<rparr>,
          str2key =
            \<lparr>s_diffuse = [(PStr ''A'', example_key_wall), (PStr ''B'', example_key_wall_512)],
             s_normal = [(PStr ''A'', ([(PNone, ''hh'')], ''BC5_UNORM'', PTuple [PNum (- 1), PNum (- 1)])),
                         (PStr ''B'', ([(PNone, ''hh'')], ''BC5_UNORM'', PTuple [PNum 512, PNum 512]))],
             s_orm = [(PStr ''A'', ([(PNone, ''1''), (PNone, ''1''), (PNone, ''1'')], ''BC7_UNORM'',
                          PTuple [PNum (- 1), PNum (- 1)])),
                      (PStr ''B'', ([(PNone, ''1''), (PNone, ''1''), (PNone, ''1'')], ''BC7_UNORM'',
                          PTuple [PNum 512, PNum 512]))],
             s_emissive = []\<rparr>\<rparr>"
  by (simp add: DXSpec_TextureKeysContainer_init_def keys_step_def example_wall_keys
        key2list_append_def key_hashable_def canon_key_def invert_key2list_def dict_of_def
        example_key_wall_def example_key_wall_512_def)


lemma example_run_512:
  "material_textures posix_stem
     [(PStr ''A'', example_wall_material (PStr ''A'') (PTuple [PNum (- 1), PNum (- 1)])),
      (PStr ''B'', example_wall_material (PStr ''B'') (PTuple [PNum 512, PNum 512]))]
   = Inl OutnameExists"
  by (simp add: material_textures_def example_keys_container_512
        DXSpec_TextureSpecContainer_init_def name_fold_wall name_fold_wall_512
        del: split_paired_Ex)

lemma example_keys_container:
  "DXSpec_TextureKeysContainer_init
     [(PStr ''A'', example_wall_material (PStr ''A'') (PTuple [PNum (- 1), PNum (- 1)])),
      (PStr ''B'', example_wall_material (PStr ''B'') (PTuple [PNum (- 1), PNum (- 1)]))]
   = Inr \<lparr>key2list =
            \<lparr>s_diffuse = [(example_key_wall, [PStr ''A'', PStr ''B''])],
             s_normal = [(([(PNone, ''hh'')], ''BC5_UNORM'', PTuple [PNum (- 1), PNum (- 1)]),
                          [PStr ''A'', PStr ''B''])],
             s_orm = [(([(PNone, ''1''), (PNone, ''1''), (PNone, ''1'')], ''BC7_UNORM'',
                          PTuple [PNum (- 1), PNum (- 1)]), [PStr ''A'', PStr ''B''])],
             s_emissive = []\<rparr>,
          str2key =
            \<lparr>s_diffuse = [(PStr ''A'', example_key_wall), (PStr ''B'', example_key_wall)],
             s_normal = [(PStr ''A'', ([(PNone, ''hh'')], ''BC5_UNORM'', PTuple [PNum (- 1), PNum (- 1)])),
                         (PStr ''B'', ([(PNone, ''hh'')], ''BC5_UNORM'', PTuple [PNum (- 1), PNum (- 1)]))],
             s_orm = [(PStr ''A'', ([(PNone, ''1''), (PNone, ''1''), (PNone, ''1'')], ''BC7_UNORM'',
                          PTuple [PNum (- 1), PNum (- 1)])),
                      (PStr ''B'', ([(PNone, ''1''), (PNone, ''1''), (PNone, ''1'')], ''BC7_UNORM'',
                          PTuple [PNum (- 1), PNum (- 1)]))],
             s_emissive = []\<rparr>\<rparr>"
  by (simp add: DXSpec_TextureKeysContainer_init_def keys_step_def example_wall_keys
        key2list_append_def key_hashable_def canon_key_def invert_key2list_def dict_of_def
        example_key_wall_def)

lemma name_fold_constant:
  "name_fold stem ([(PNone, s1)], fmt, res) dflt = Inr dflt"
  "name_fold stem ([(PNone, s1), (PNone, s2), (PNone, s3)], fmt, res) dflt = Inr dflt"
  by (simp_all add: name_fold_def)

lemma example_run:
  "material_textures posix_stem
     [(PStr ''A'', example_wall_material (PStr ''A'') (PTuple [PNum (- 1), PNum (- 1)])),
      (PStr ''B'', example_wall_material (PStr ''B'') (PTuple [PNum (- 1), PNum (- 1)]))]
   = Inr \<lparr>s_diffuse = [(PStr ''A'', ''wall.dds''), (PStr ''B'', ''wall.dds'')],
          s_normal = [(PStr ''A'', ''$DEFAULT_NORMAL''), (PStr ''B'', ''$DEFAULT_NORMAL'')],
          s_orm = [(PStr ''A'', ''$DEFAULT_ORM''), (PStr ''B'', ''$DEFAULT_ORM'')],
          s_emissive = []\<rparr>"
  by (simp add: material_textures_def example_keys_container
        DXSpec_TextureSpecContainer_init_def DXSpec_Mat2TextureContainer_init_def
        name_fold_wall name_fold_constant Let_def del: split_paired_Ex)

text \<open>
  C1 as stated fails: \<^verbatim>\<open>A\<close> and \<^verbatim>\<open>B\<close> use the same texture, the override of \<^verbatim>\<open>B\<close> sets the resolution
  to 512 by 512. The two diffuse keys differ, and building the table raises
  \<^verbatim>\<open>Outname already exists\<close>.
\<close>

theorem shared_diffuse_texture_counterexample:
  "material_of exact_python example_src example_A []
     = Inr (example_wall_material (PStr ''A'') (PTuple [PNum (- 1), PNum (- 1)])) \<and>
   material_of exact_python example_src example_B [(''resolution'', PList [PNum 512, PNum 512])]
     = Inr (example_wall_material (PStr ''B'') (PTuple [PNum 512, PNum 512])) \<and>
   get_diffuse_texture_key (example_wall_material (PStr ''A'') (PTuple [PNum (- 1), PNum (- 1)]))
     = Inr example_key_wall \<and>
   get_diffuse_texture_key (example_wall_material (PStr ''B'') (PTuple [PNum 512, PNum 512]))
     = Inr example_key_wall_512 \<and>
   canon_key example_key_wall \<noteq> canon_key example_key_wall_512 \<and>
   material_textures posix_stem
     [(PStr ''A'', example_wall_material (PStr ''A'') (PTuple [PNum (- 1), PNum (- 1)])),
      (PStr ''B'', example_wall_material (PStr ''B'') (PTuple [PNum 512, PNum 512]))]
     = Inl OutnameExists"
  apply (intro conjI)
       apply (rule example_A_material)
      apply (rule example_B_material_512)
     apply (simp add: example_wall_keys example_key_wall_def)
    apply (simp add: example_wall_keys example_key_wall_512_def)
   apply (simp add: canon_key_def example_key_wall_def example_key_wall_512_def)
  apply (rule example_run_512)
  done

text \<open>
  Without the override both materials get the diffuse file \<^verbatim>\<open>wall.dds\<close>; with the
  resolution of \<^verbatim>\<open>B\<close> set to 512 by 512 the keys container is built and the exception is
  \<^verbatim>\<open>Outname already exists\<close>.
\<close>

theorem shared_diffuse_texture_witness:
  "material_db
     [(PStr ''A'', example_wall_material (PStr ''A'') (PTuple [PNum (- 1), PNum (- 1)])),
      (PStr ''B'', example_wall_material (PStr ''B'') (PTuple [PNum (- 1), PNum (- 1)]))] \<and>
   material_db
     [(PStr ''A'', example_wall_material (PStr ''A'') (PTuple [PNum (- 1), PNum (- 1)])),
      (PStr ''B'', example_wall_material (PStr ''B'') (PTuple [PNum 512, PNum 512]))] \<and>
   material_of exact_python example_src example_A []
     = Inr (example_wall_material (PStr ''A'') (PTuple [PNum (- 1), PNum (- 1)])) \<and>
   material_of exact_python example_src example_B []
     = Inr (example_wall_material (PStr ''B'') (PTuple [PNum (- 1), PNum (- 1)])) \<and>
   material_textures posix_stem
     [(PStr ''A'', example_wall_material (PStr ''A'') (PTuple [PNum (- 1), PNum (- 1)])),
      (PStr ''B'', example_wall_material (PStr ''B'') (PTuple [PNum (- 1), PNum (- 1)]))]
   = Inr \<lparr>s_diffuse = [(PStr ''A'', ''wall.dds''), (PStr ''B'', ''wall.dds'')],
          s_normal = [(PStr ''A'', ''$DEFAULT_NORMAL''), (PStr ''B'', ''$DEFAULT_NORMAL'')],
          s_orm = [(PStr ''A'', ''$DEFAULT_ORM''), (PStr ''B'', ''$DEFAULT_ORM'')],
          s_emissive = []\<rparr> \<and>
   ebind (get_diffuse_texture_key (example_wall_material (PStr ''A'') (PTuple [PNum (- 1), PNum (- 1)])))
     (\<lambda>k. Inr (canon_key k))
     = ebind (get_diffuse_texture_key (example_wall_material (PStr ''B'') (PTuple [PNum (- 1), PNum (- 1)])))
         (\<lambda>k. Inr (canon_key k)) \<and>
   list_all (\<lambda>item. is_source_uri (uri (diffuse (snd item))))
     [(PStr ''A'', example_wall_material (PStr ''A'') (PTuple [PNum (- 1), PNum (- 1)])),
      (PStr ''B'', example_wall_material (PStr ''B'') (PTuple [PNum 512, PNum 512]))] \<and>
   canon (PTuple [PNum (- 1), PNum (- 1)]) \<noteq> canon (PTuple [PNum 512, PNum 512]) \<and>
   material_textures posix_stem
     [(PStr ''A'', example_wall_material (PStr ''A'') (PTuple [PNum (- 1), PNum (- 1)])),
      (PStr ''B'', example_wall_material (PStr ''B'') (PTuple [PNum 512, PNum 512]))]
     = Inl OutnameExists"
proof -
  let ?A = "example_wall_material (PStr ''A'') (PTuple [PNum (- 1), PNum (- 1)])"
  let ?B = "example_wall_material (PStr ''B'') (PTuple [PNum (- 1), PNum (- 1)])"
  let ?C = "example_wall_material (PStr ''B'') (PTuple [PNum 512, PNum 512])"
  have d: "material_db [(PStr ''A'', ?A), (PStr ''B'', ?B)]" by (simp add: material_db_def)
  have a: "(PStr ''A'', ?A) \<in> set [(PStr ''A'', ?A), (PStr ''B'', ?B)]" by simp
  have b: "(PStr ''B'', ?B) \<in> set [(PStr ''A'', ?A), (PStr ''B'', ?B)]" by simp
  have u: "uri (diffuse ?A) = uri (diffuse ?B)" by (simp add: example_wall_material_def)
  have s: "swizzle (diffuse ?A) = swizzle (diffuse ?B)" by (simp add: example_wall_material_def)
  have r: "canon (resolution ?A) = canon (resolution ?B)" by (simp add: example_wall_material_def)
  from shared_diffuse_texture [OF d a b u s, of posix_stem, THEN conjunct1, THEN mp, OF r]
  have k: "ebind (get_diffuse_texture_key ?A) (\<lambda>k. Inr (canon_key k))
             = ebind (get_diffuse_texture_key ?B) (\<lambda>k. Inr (canon_key k))" by (rule conjunct1)
  have d': "material_db [(PStr ''A'', ?A), (PStr ''B'', ?C)]" by (simp add: material_db_def)
  have a': "(PStr ''A'', ?A) \<in> set [(PStr ''A'', ?A), (PStr ''B'', ?C)]" by simp
  have b': "(PStr ''B'', ?C) \<in> set [(PStr ''A'', ?A), (PStr ''B'', ?C)]" by simp
  have u': "uri (diffuse ?A) = uri (diffuse ?C)" by (simp add: example_wall_material_def)
  have s': "swizzle (diffuse ?A) = swizzle (diffuse ?C)" by (simp add: example_wall_material_def)
  have ne: "canon (PTuple [PNum (- 1), PNum (- 1)]) \<noteq> canon (PTuple [PNum 512, PNum 512])" by simp
  have r': "canon (resolution ?A) \<noteq> canon (resolution ?C)"
    using ne by (simp add: example_wall_material_def)
  have src: "list_all (\<lambda>item. is_source_uri (uri (diffuse (snd item))))
               [(PStr ''A'', ?A), (PStr ''B'', ?C)]"
    by (simp add: example_wall_material_def)
  from shared_diffuse_texture [OF d' a' b' u' s', of posix_stem, THEN conjunct2, THEN mp, OF r',
      THEN conjunct2, THEN conjunct2, THEN mp, OF src]
  have x: "material_textures posix_stem [(PStr ''A'', ?A), (PStr ''B'', ?C)] = Inl OutnameExists"
    by (simp add: example_keys_container_512)
  show ?thesis
    apply (intro conjI)
            apply (rule d)
           apply (rule d')
          apply (rule example_A_material)
         apply (rule example_B_material)
        apply (rule example_run)
       apply (rule k)
      apply (rule src)
     apply (rule ne)
    apply (rule x)
    done
qed


section \<open>Properties of override exhaustion\<close>


lemma dict_pop_eq:
  "dict_pop d k = (case map_of d k of None \<Rightarrow> None | Some v \<Rightarrow> Some (v, AList.delete k d))"
  by (simp add: dict_pop_def)

lemma delete_as_leftover: "AList.delete k d = leftover [k] d"
  by (induction d) (auto simp add: leftover_def)

lemma leftover_leftover: "leftover ks (leftover js d) = leftover (js @ ks) d"
  by (induction d) (auto simp add: leftover_def)




lemma leftover_emissive_absent:
  "map_of (leftover ks d) ''emissive'' = None \<Longrightarrow> leftover (ks @ [''emissive'']) d = leftover ks d"
proof -
  assume "map_of (leftover ks d) ''emissive'' = None"
  then have "''emissive'' \<notin> fst ` set (leftover ks d)" by (simp add: map_of_eq_None_iff)
  then have "AList.delete ''emissive'' (leftover ks d) = leftover ks d" by (rule delete_id)
  then show ?thesis by (simp add: delete_as_leftover leftover_leftover)
qed





























lemma leftover_recognized: "leftover ks (recognized ks d) = []"
  by (induction d) (auto simp add: leftover_def recognized_def)




















end
